theory Spec2Isabelle
  imports Complex_Main
begin

section \<open>Strings, floats and Python helpers\<close>

text \<open>
  A Python \<open>str\<close> is a sequence of Unicode code points, so it is modelled as a list of
  natural numbers; \<open>length\<close> then counts what \<open>len\<close> counts, and the non-ASCII marks the
  program writes (U+274C, the CJK text of the prompts) are single elements.
\<close>

type_synonym pystr = "nat list"

definition ascii :: "string \<Rightarrow> pystr" where
  "ascii s = map of_char s"

text \<open>\<open>s.startswith(p)\<close> and \<open>sub in s\<close>.\<close>

fun startswith :: "pystr \<Rightarrow> pystr \<Rightarrow> bool" where
  "startswith s [] = True"
| "startswith [] (p # ps) = False"
| "startswith (c # cs) (p # ps) = (c = p \<and> startswith cs ps)"

fun contains :: "pystr \<Rightarrow> pystr \<Rightarrow> bool" where
  "contains [] sub = (sub = [])"
| "contains (c # cs) sub = (startswith (c # cs) sub \<or> contains cs sub)"

text \<open>\<open>sep.join(xs)\<close>.\<close>

fun join :: "pystr \<Rightarrow> pystr list \<Rightarrow> pystr" where
  "join sep [] = []"
| "join sep [x] = x"
| "join sep (x # y # ys) = x @ sep @ join sep (y # ys)"

text \<open>\<open>a or b\<close> on strings: the empty string is falsy.\<close>

definition str_or :: "pystr \<Rightarrow> pystr \<Rightarrow> pystr" where
  "str_or a b = (if a \<noteq> [] then a else b)"

text \<open>
  A Python \<open>float\<close>. The program only stores, compares and clamps scores, so a float is
  a finite value, an infinity or NaN, with the IEEE comparison (every comparison with NaN
  is false). \<open>max\<close> and \<open>min\<close> are the builtins on two arguments: they keep the first
  argument unless the second is strictly greater (smaller).
\<close>

datatype pyfloat = Fin real | PInf | NInf | NaN

fun flt_lt :: "pyfloat \<Rightarrow> pyfloat \<Rightarrow> bool" where
  "flt_lt NaN y = False"
| "flt_lt x NaN = False"
| "flt_lt PInf y = False"
| "flt_lt x NInf = False"
| "flt_lt NInf y = True"
| "flt_lt x PInf = True"
| "flt_lt (Fin a) (Fin b) = (a < b)"

fun flt_ge :: "pyfloat \<Rightarrow> pyfloat \<Rightarrow> bool" where
  "flt_ge NaN y = False"
| "flt_ge x NaN = False"
| "flt_ge PInf y = True"
| "flt_ge x NInf = True"
| "flt_ge NInf y = False"
| "flt_ge x PInf = False"
| "flt_ge (Fin a) (Fin b) = (a \<ge> b)"

definition py_min :: "pyfloat \<Rightarrow> pyfloat \<Rightarrow> pyfloat" where
  "py_min a b = (if flt_lt b a then b else a)"

definition py_max :: "pyfloat \<Rightarrow> pyfloat \<Rightarrow> pyfloat" where
  "py_max a b = (if flt_lt a b then b else a)"

text \<open>What a call that may raise produces: the exception's text, or the value.\<close>

datatype 'a outcome = Raises pystr | Returns 'a

section \<open>Data model (models.py)\<close>

text \<open>
  The dataclasses of models.py, field by field. The wall-clock fields (\<open>timestamp\<close>,
  \<open>created_at\<close>, \<open>updated_at\<close>) are left out: they hold the time of creation and no
  operation below reads them. Of \<open>Config\<close>, the fetcher settings are left out for the
  same reason. The field \<open>id\<close> of \<open>Paper\<close> is \<open>paper_id\<close> here.
\<close>

record QAPair =
  question :: pystr
  answer :: pystr
  thinking :: "pystr option"
  is_reasoning :: bool
  parent_qa_id :: "int option"

record Paper =
  paper_id :: pystr
  title :: pystr
  authors :: "pystr list"
  abstract :: pystr
  url :: pystr
  html_url :: pystr
  html_content :: pystr
  preview_text :: pystr
  is_relevant :: "bool option"
  relevance_score :: pyfloat
  extracted_keywords :: "pystr list"
  one_line_summary :: pystr
  detailed_summary :: pystr
  qa_pairs :: "QAPair list"
  is_hidden :: bool
  is_starred :: bool
  published_date :: pystr

record Config =
  filter_keywords :: "pystr list"
  negative_keywords :: "pystr list"
  preset_questions :: "pystr list"
  system_prompt :: pystr
  model :: pystr
  temperature :: pyfloat
  max_tokens :: int
  concurrent_papers :: int
  min_relevance_score_for_stage2 :: pyfloat

text \<open>\<open>QAPair(question=q, answer=a)\<close>: the other fields take their defaults.\<close>

definition QAPair_default :: "pystr \<Rightarrow> pystr \<Rightarrow> QAPair" where
  "QAPair_default q a =
     \<lparr>question = q, answer = a, thinking = None, is_reasoning = False, parent_qa_id = None\<rparr>"

section \<open>The outside world\<close>

text \<open>
  A request to the model service, as \<open>client.chat.completions.create\<close> receives it.
\<close>

datatype role = System | User | Assistant

record request =
  rq_model :: pystr
  rq_messages :: "(role \<times> pystr) list"
  rq_temperature :: pyfloat
  rq_max_tokens :: int
  rq_json :: bool
  rq_stream :: bool

text \<open>
  One chunk of a streamed completion: no choices, a falsy delta, or a delta with its
  optional \<open>reasoning_content\<close> and \<open>content\<close>.
\<close>

datatype raw_chunk = NoChoices | NoDelta | Delta "pystr option" "pystr option"

text \<open>
  The dictionary \<open>json.loads\<close> returns for a Stage 1 judgment: each key absent or present;
  \<open>is_relevant\<close> may be \<open>null\<close>.
\<close>

record stage1_json =
  jd_is_relevant :: "bool option option"
  jd_relevance_score :: "pyfloat option"
  jd_extracted_keywords :: "pystr list option"
  jd_one_line_summary :: "pystr option"

text \<open>What the arXiv API and the HTML download give for one paper.\<close>

record entry =
  en_title :: pystr
  en_authors :: "pystr list"
  en_summary :: pystr
  en_link :: pystr
  en_html :: pystr
  en_published :: pystr

text \<open>
  The environment is everything the program does not decide: the reply of the model
  service to its \<open>n\<close>-th request (it raises, or returns the message content; for a stream
  it raises at once, or delivers chunks and then ends normally, \<open>None\<close>, or raises), the
  result of \<open>json.loads\<close> followed by the conversions of Stage 1 (it raises on text that is
  not such a dictionary), the arXiv service, and the Unicode tables of the runtime
  (\<open>str.lower\<close> and the class \<open>\d\<close>). The content of a completion is a string, as the
  annotation of \<open>_ask_question\<close> says.
\<close>

record env =
  chat :: "nat \<Rightarrow> request \<Rightarrow> pystr outcome"
  chat_stream :: "nat \<Rightarrow> request \<Rightarrow> (raw_chunk list \<times> pystr option) outcome"
  json_loads :: "pystr \<Rightarrow> stage1_json outcome"
  fetch_remote :: "pystr \<Rightarrow> entry outcome"
  lower :: "pystr \<Rightarrow> pystr"
  is_digit :: "nat \<Rightarrow> bool"

text \<open>
  The state the program changes: the record store (one JSON file per paper id under
  data/papers), the requests sent to the model service so far, oldest first, and the
  waits of \<open>asyncio.sleep\<close>, in seconds. Writing a file is taken to succeed.
\<close>

record world =
  store :: "pystr \<rightharpoonup> Paper"
  calls :: "request list"
  sleeps :: "nat list"

definition save_paper :: "Paper \<Rightarrow> world \<Rightarrow> world" where
  "save_paper paper w = w\<lparr>store := (store w)(paper_id paper \<mapsto> paper)\<rparr>"

section \<open>Asking one question (analyzer.py)\<close>

definition question_sep :: pystr where
  "question_sep = [10, 10] @ ascii ''Question: ''"

text \<open>The request of \<open>_ask_question\<close> for a prefix and a question.\<close>

definition ask_request :: "Config \<Rightarrow> pystr \<Rightarrow> pystr \<Rightarrow> request" where
  "ask_request config cache_prefix q =
     \<lparr>rq_model = model config,
      rq_messages = [(System, system_prompt config), (User, cache_prefix @ question_sep @ q)],
      rq_temperature = temperature config,
      rq_max_tokens = max_tokens config,
      rq_json = False,
      rq_stream = False\<rparr>"

definition ask_question :: "env \<Rightarrow> pystr \<Rightarrow> pystr \<Rightarrow> Config \<Rightarrow> world \<Rightarrow> pystr outcome \<times> world" where
  "ask_question e cache_prefix q config w =
     (let rq = ask_request config cache_prefix q
      in (chat e (length (calls w)) rq, w\<lparr>calls := calls w @ [rq]\<rparr>))"

text \<open>
  \<open>_ask_question_with_retry\<close>: the loop over \<open>range(max_retries)\<close>, by recursion on the
  attempts left. A failed attempt that is not the last sleeps \<open>2 ** attempt\<close> seconds; the
  last one returns \<open>None\<close>; so does falling out of the loop.
\<close>

fun ask_attempts ::
  "env \<Rightarrow> pystr \<Rightarrow> pystr \<Rightarrow> Config \<Rightarrow> nat \<Rightarrow> nat list \<Rightarrow> world \<Rightarrow> pystr option \<times> world" where
  "ask_attempts e cache_prefix q config max_retries [] w = (None, w)"
| "ask_attempts e cache_prefix q config max_retries (attempt # rest) w =
     (case ask_question e cache_prefix q config w of
        (Returns a, w') \<Rightarrow> (Some a, w')
      | (Raises err, w') \<Rightarrow>
          if attempt < max_retries - 1
          then ask_attempts e cache_prefix q config max_retries rest
                 (w'\<lparr>sleeps := sleeps w' @ [2 ^ attempt]\<rparr>)
          else (None, w'))"

definition ask_question_with_retry ::
  "env \<Rightarrow> pystr \<Rightarrow> pystr \<Rightarrow> Config \<Rightarrow> world \<Rightarrow> pystr option \<times> world" where
  "ask_question_with_retry e cache_prefix q config w =
     ask_attempts e cache_prefix q config 3 [0 ..< 3] w"

section \<open>Stage 2: deep analysis (analyzer.py)\<close>

definition cache_prefix_of :: "Paper \<Rightarrow> pystr" where
  "cache_prefix_of paper =
     ascii ''Paper Title: '' @ title paper @ [10, 10] @ ascii ''Paper Content:'' @ [10]
       @ str_or (html_content paper) (abstract paper) @ [10]"

definition detailed_summary_question :: pystr where
  "detailed_summary_question =
     [35831, 29992, 20013, 25991, 29983, 25104, 36825, 31687, 35770, 25991, 30340, 35814,
      32454, 25688, 35201, 65288, 32422, 50, 48, 48, 45, 51, 48, 48, 23383, 65289, 65292,
      21253, 25324, 65306, 10, 49, 46, 32, 30740, 31350, 32972, 26223, 21644, 21160, 26426,
      10, 50, 46, 32, 26680, 24515, 26041, 27861, 21644, 25216, 26415, 21019, 26032, 10, 51,
      46, 32, 20027, 35201, 23454, 39564, 32467, 26524, 10, 52, 46, 32, 30740, 31350, 24847,
      20041, 21644, 20215, 20540, 10, 10, 20351, 29992, 32, 77, 97, 114, 107, 100, 111, 119,
      110, 32, 26684, 24335, 65292, 35753, 25688, 35201, 28165, 26224, 26131, 35835, 12290]"

text \<open>
  The loop over the preset questions: it stops at the first question that has no answer
  (\<open>all_success = False; break\<close>) and appends a QAPair for each answered one. It returns the
  paper, \<open>all_success\<close> and the world.
\<close>

fun ask_presets ::
  "env \<Rightarrow> pystr \<Rightarrow> Config \<Rightarrow> pystr list \<Rightarrow> Paper \<Rightarrow> world \<Rightarrow> Paper \<times> bool \<times> world" where
  "ask_presets e cache_prefix config [] paper w = (paper, True, w)"
| "ask_presets e cache_prefix config (q # qs) paper w =
     (case ask_question_with_retry e cache_prefix q config w of
        (None, w') \<Rightarrow> (paper, False, w')
      | (Some a, w') \<Rightarrow>
          ask_presets e cache_prefix config qs
            (paper\<lparr>qa_pairs := qa_pairs paper @ [QAPair_default q a]\<rparr>) w')"

definition stage2_qa :: "env \<Rightarrow> Paper \<Rightarrow> Config \<Rightarrow> world \<Rightarrow> Paper \<times> world" where
  "stage2_qa e paper config w =
     (if is_relevant paper \<noteq> Some True then (paper, w)
      else
        let cache_prefix = cache_prefix_of paper in
        case ask_question_with_retry e cache_prefix detailed_summary_question config w of
          (None, w1) \<Rightarrow> (paper, w1)
        | (Some s, w1) \<Rightarrow>
            (case ask_presets e cache_prefix config (preset_questions config)
                    (paper\<lparr>detailed_summary := s\<rparr>) w1 of
               (paper', all_success, w2) \<Rightarrow>
                 if all_success then (paper', save_paper paper' w2) else (paper', w2)))"

section \<open>Stage 1: quick filter (analyzer.py)\<close>

text \<open>The text a negative keyword is searched in: \<open>f"{title} {preview_text}".lower()\<close>.\<close>

definition searchable_text :: "env \<Rightarrow> Paper \<Rightarrow> pystr" where
  "searchable_text e paper = lower e (title paper @ [32] @ preview_text paper)"

definition neg_kw_matches :: "env \<Rightarrow> Paper \<Rightarrow> pystr \<Rightarrow> bool" where
  "neg_kw_matches e paper neg_kw = contains (searchable_text e paper) (lower e neg_kw)"

text \<open>The mark U+274C and a space, before the keyword.\<close>

definition neg_kw_label :: "pystr \<Rightarrow> pystr" where
  "neg_kw_label neg_kw = [10060, 32] @ neg_kw"

definition neg_kw_summary :: "pystr \<Rightarrow> pystr" where
  "neg_kw_summary neg_kw =
     [35770, 25991, 21253, 21547, 36127, 38754, 20851, 38190, 35789, 12300] @ neg_kw
       @ [12301, 65292, 33258, 21160, 26631, 35760, 20026, 19981, 30456, 20851]"

definition stage1_prompt :: "Config \<Rightarrow> Paper \<Rightarrow> pystr" where
  "stage1_prompt config paper =
     [20998, 26512, 36825, 31687, 35770, 25991, 39044, 35272, 65292, 21028, 26029, 23427,
      19982, 20197, 19979, 20851, 38190, 35789, 30340, 30456, 20851, 24615, 65306, 10, 10,
      20851, 38190, 35789, 65306]
     @ join (ascii '', '') (filter_keywords config)
     @ [10, 10, 35770, 25991, 26631, 39064, 65306] @ title paper
     @ [10, 35770, 25991, 39044, 35272, 65306, 10] @ preview_text paper
     @ [10, 10, 35831, 29992, 32, 74, 83, 79, 78, 32, 26684, 24335, 22238, 31572, 65306, 10,
        123, 10, 32, 32, 32, 32, 34, 105, 115, 95, 114, 101, 108, 101, 118, 97, 110, 116, 34,
        58, 32, 116, 114, 117, 101, 47, 102, 97, 108, 115, 101, 44, 10, 32, 32, 32, 32, 34,
        114, 101, 108, 101, 118, 97, 110, 99, 101, 95, 115, 99, 111, 114, 101, 34, 58, 32, 48,
        45, 49, 48, 30340, 20998, 25968, 65288, 48, 61, 23436, 20840, 19981, 30456, 20851,
        65292, 49, 48, 61, 39640, 24230, 30456, 20851, 65289, 65292, 10, 32, 32, 32, 32, 34,
        101, 120, 116, 114, 97, 99, 116, 101, 100, 95, 107, 101, 121, 119, 111, 114, 100, 115,
        34, 58, 32, 91, 34, 20851, 38190, 35789, 49, 34, 44, 32, 34, 20851, 38190, 35789, 50,
        34, 44, 32, 46, 46, 46, 93, 44, 10, 32, 32, 32, 32, 34, 111, 110, 101, 95, 108, 105,
        110, 101, 95, 115, 117, 109, 109, 97, 114, 121, 34, 58, 32, 34, 19968, 21477, 35805,
        24635, 32467, 65288, 20013, 25991, 65289, 34, 10, 125, 10]"

definition stage1_request :: "Config \<Rightarrow> pystr \<Rightarrow> request" where
  "stage1_request config prompt =
     \<lparr>rq_model = model config,
      rq_messages = [(System, system_prompt config), (User, prompt)],
      rq_temperature = temperature config,
      rq_max_tokens = 500,
      rq_json = True,
      rq_stream = False\<rparr>"

text \<open>
  The body of the \<open>try\<close>: the completion, then \<open>json.loads\<close> and the reading of the four
  keys with their defaults. Anything that raises there ends in the \<open>except\<close> branch.
\<close>

definition stage1_judge :: "env \<Rightarrow> request \<Rightarrow> world \<Rightarrow> stage1_json outcome" where
  "stage1_judge e rq w =
     (case chat e (length (calls w)) rq of
        Raises err \<Rightarrow> Raises err
      | Returns content \<Rightarrow> json_loads e content)"

definition apply_judgment :: "stage1_json \<Rightarrow> Paper \<Rightarrow> Paper" where
  "apply_judgment result paper =
     paper\<lparr>is_relevant := (case jd_is_relevant result of None \<Rightarrow> Some False | Some v \<Rightarrow> v),
           relevance_score := (case jd_relevance_score result of None \<Rightarrow> Fin 0 | Some x \<Rightarrow> x),
           extracted_keywords := (case jd_extracted_keywords result of None \<Rightarrow> [] | Some ks \<Rightarrow> ks),
           one_line_summary := (case jd_one_line_summary result of None \<Rightarrow> [] | Some s \<Rightarrow> s)\<rparr>"

fun stage1_attempts ::
  "env \<Rightarrow> Config \<Rightarrow> request \<Rightarrow> nat \<Rightarrow> nat list \<Rightarrow> Paper \<Rightarrow> world \<Rightarrow> Paper \<times> world" where
  "stage1_attempts e config rq max_retries [] paper w = (paper, w)"
| "stage1_attempts e config rq max_retries (attempt # rest) paper w =
     (let w' = w\<lparr>calls := calls w @ [rq]\<rparr> in
      case stage1_judge e rq w of
        Returns result \<Rightarrow>
          (let paper' = apply_judgment result paper in (paper', save_paper paper' w'))
      | Raises err \<Rightarrow>
          if attempt < max_retries - 1
          then stage1_attempts e config rq max_retries rest paper
                 (w'\<lparr>sleeps := sleeps w' @ [2 ^ attempt]\<rparr>)
          else stage1_attempts e config rq max_retries rest (paper\<lparr>is_relevant := None\<rparr>) w')"

definition stage1_filter :: "env \<Rightarrow> Paper \<Rightarrow> Config \<Rightarrow> world \<Rightarrow> Paper \<times> world" where
  "stage1_filter e paper config w =
     (case (if negative_keywords config \<noteq> []
            then find (neg_kw_matches e paper) (negative_keywords config) else None) of
        Some neg_kw \<Rightarrow>
          (let paper' = paper\<lparr>is_relevant := Some False,
                              relevance_score := Fin 1,
                              extracted_keywords := [neg_kw_label neg_kw],
                              one_line_summary := neg_kw_summary neg_kw\<rparr>
           in (paper', save_paper paper' w))
      | None \<Rightarrow>
          stage1_attempts e config (stage1_request config (stage1_prompt config paper))
            3 [0 ..< 3] paper w)"

section \<open>Manual relevance update and the re-filter sweep (api.py)\<close>

datatype http_error = NotFound

text \<open>
  \<open>update_relevance\<close>: the paper is loaded by id (404 when there is no such file), the
  score is \<open>max(0, min(10, request.relevance_score))\<close>.
\<close>

definition update_relevance ::
  "pystr \<Rightarrow> bool \<Rightarrow> pyfloat \<Rightarrow> world \<Rightarrow> (http_error + Paper) \<times> world" where
  "update_relevance pid req_is_relevant req_relevance_score w =
     (case store w pid of
        None \<Rightarrow> (Inl NotFound, w)
      | Some paper \<Rightarrow>
          (let paper' = paper\<lparr>is_relevant := Some req_is_relevant,
                              relevance_score := py_max (Fin 0) (py_min (Fin 10) req_relevance_score)\<rparr>
           in (Inr paper', save_paper paper' w)))"







section \<open>More string helpers\<close>

text \<open>The code points for which \<open>str.isspace\<close> holds; \<open>s.strip()\<close> removes them at both ends.\<close>

definition whitespace :: "nat list" where
  "whitespace =
     [9, 10, 11, 12, 13, 28, 29, 30, 31, 32, 133, 160, 5760, 8192, 8193, 8194, 8195, 8196,
      8197, 8198, 8199, 8200, 8201, 8202, 8232, 8233, 8239, 8287, 12288]"

definition is_space :: "nat \<Rightarrow> bool" where
  "is_space c = (c \<in> set whitespace)"

definition strip :: "pystr \<Rightarrow> pystr" where
  "strip s = rev (dropWhile is_space (rev (dropWhile is_space s)))"

text \<open>\<open>str(n)\<close> for a natural number.\<close>

fun str_nat :: "nat \<Rightarrow> pystr" where
  "str_nat n = (if n < 10 then [48 + n] else str_nat (n div 10) @ [48 + n mod 10])"

declare str_nat.simps [simp del]

text \<open>
  \<open>s.replace(old, new)\<close>: every occurrence, left to right, without overlap. \<open>skip\<close> counts
  the characters of a replaced occurrence still to pass over.
\<close>

fun replace_from :: "nat \<Rightarrow> pystr \<Rightarrow> pystr \<Rightarrow> pystr \<Rightarrow> pystr" where
  "replace_from skip [] old new = []"
| "replace_from skip (c # cs) old new =
     (if 0 < skip then replace_from (skip - 1) cs old new
      else if startswith (c # cs) old then new @ replace_from (length old - 1) cs old new
      else c # replace_from 0 cs old new)"

definition replace :: "pystr \<Rightarrow> pystr \<Rightarrow> pystr \<Rightarrow> pystr" where
  "replace s old new =
     (if old = [] then new @ concat (map (\<lambda>c. c # new) s) else replace_from 0 s old new)"

text \<open>
  \<open>re.findall\<close> with the pattern \<open>\[(\d{4}\.\d{4,5}(?:v\d+)?)\]\<close>: the groups of the
  matches, left to right, without overlap. \<open>isd\<close> is the class \<open>\d\<close>. The greedy
  quantifiers try the longer alternative first.
\<close>

fun all_digits :: "(nat \<Rightarrow> bool) \<Rightarrow> nat \<Rightarrow> pystr \<Rightarrow> bool" where
  "all_digits isd 0 s = True"
| "all_digits isd (Suc n) [] = False"
| "all_digits isd (Suc n) (c # cs) = (isd c \<and> all_digits isd n cs)"

text \<open>\<open>\d+\]\<close>: the number of digits taken, the largest that is followed by the bracket.\<close>

fun version_digits :: "(nat \<Rightarrow> bool) \<Rightarrow> pystr \<Rightarrow> nat option" where
  "version_digits isd [] = None"
| "version_digits isd (c # cs) =
     (if isd c
      then (case version_digits isd cs of
              Some k \<Rightarrow> Some (Suc k)
            | None \<Rightarrow> if startswith cs [93] then Some 1 else None)
      else None)"

text \<open>\<open>(?:v\d+)?\]\<close>: the length of what it matches.\<close>

definition match_tail :: "(nat \<Rightarrow> bool) \<Rightarrow> pystr \<Rightarrow> nat option" where
  "match_tail isd r =
     (case (case r of [] \<Rightarrow> None
                    | c # cs \<Rightarrow> if c = 118 then version_digits isd cs else None) of
        Some k \<Rightarrow> Some (k + 2)
      | None \<Rightarrow> if startswith r [93] then Some 1 else None)"

text \<open>A match that starts at the head of \<open>s\<close>: its group and its length.\<close>

definition match_id :: "(nat \<Rightarrow> bool) \<Rightarrow> pystr \<Rightarrow> (pystr \<times> nat) option" where
  "match_id isd s =
     (case s of
        [] \<Rightarrow> None
      | c # r \<Rightarrow>
          if c = 91 \<and> all_digits isd 4 r \<and> startswith (drop 4 r) [46]
          then (case (if all_digits isd 5 (drop 5 r) then match_tail isd (drop 10 r) else None) of
                  Some t \<Rightarrow> Some (take (9 + t) r, 11 + t)
                | None \<Rightarrow>
                    (case (if all_digits isd 4 (drop 5 r) then match_tail isd (drop 9 r) else None) of
                       Some t \<Rightarrow> Some (take (8 + t) r, 10 + t)
                     | None \<Rightarrow> None))
          else None)"

fun findall_from :: "(nat \<Rightarrow> bool) \<Rightarrow> nat \<Rightarrow> pystr \<Rightarrow> pystr list" where
  "findall_from isd skip [] = []"
| "findall_from isd skip (c # cs) =
     (if 0 < skip then findall_from isd (skip - 1) cs
      else (case match_id isd (c # cs) of
              Some (g, n) \<Rightarrow> g # findall_from isd (n - 1) cs
            | None \<Rightarrow> findall_from isd 0 cs))"

definition findall_ids :: "(nat \<Rightarrow> bool) \<Rightarrow> pystr \<Rightarrow> pystr list" where
  "findall_ids isd s = findall_from isd 0 s"

text \<open>\<open>d[k] = v\<close> on a dictionary, which keeps the order of first insertion.\<close>

fun dict_set :: "('k \<times> 'v) list \<Rightarrow> 'k \<Rightarrow> 'v \<Rightarrow> ('k \<times> 'v) list" where
  "dict_set [] k v = [(k, v)]"
| "dict_set ((k', v') # d) k v = (if k' = k then (k, v) # d else (k', v') # dict_set d k v)"

text \<open>
  \<open>xs[i]\<close> for an integer index. Positions \<open>0 .. len - 1\<close> are read as they are, positions
  \<open>-len .. -1\<close> from the end, and any other position raises IndexError, here \<open>None\<close>.
\<close>

datatype py_error = IndexError

definition py_index :: "'a list \<Rightarrow> int \<Rightarrow> 'a option" where
  "py_index xs i =
     (if 0 \<le> i \<and> i < int (length xs) then Some (xs ! nat i)
      else if - int (length xs) \<le> i \<and> i < 0 then Some (xs ! nat (int (length xs) + i))
      else None)"

section \<open>Fetching a referenced paper (fetcher.py)\<close>

definition extract_preview :: "pystr \<Rightarrow> pystr \<Rightarrow> pystr" where
  "extract_preview html abstract' =
     take 2000 (if html \<noteq> [] then abstract' @ [10, 10] @ take 1500 html else abstract')"

definition new_paper :: "pystr \<Rightarrow> entry \<Rightarrow> Paper" where
  "new_paper arxiv_id en =
     \<lparr>paper_id = arxiv_id, title = en_title en, authors = en_authors en,
      abstract = en_summary en, url = en_link en,
      html_url = ascii ''https://arxiv.org/html/'' @ arxiv_id,
      html_content = en_html en,
      preview_text = extract_preview (en_html en) (en_summary en),
      is_relevant = None, relevance_score = Fin 0, extracted_keywords = [],
      one_line_summary = [], detailed_summary = [], qa_pairs = [], is_hidden = False,
      is_starred = False, published_date = en_published en\<rparr>"

text \<open>
  \<open>fetch_single_paper\<close>: the stored paper when there is one; otherwise the paper is fetched,
  saved at once and returned; a failed fetch raises.
\<close>

definition fetch_single_paper :: "env \<Rightarrow> pystr \<Rightarrow> world \<Rightarrow> Paper outcome \<times> world" where
  "fetch_single_paper e arxiv_id w =
     (case store w arxiv_id of
        Some paper \<Rightarrow> (Returns paper, w)
      | None \<Rightarrow>
          (case fetch_remote e arxiv_id of
             Raises err \<Rightarrow> (Raises err, w)
           | Returns en \<Rightarrow> (Returns (new_paper arxiv_id en), save_paper (new_paper arxiv_id en) w)))"

section \<open>Interactive questions (analyzer.py)\<close>

text \<open>
  Reasoning mode: \<open>question.lower().startswith("think:")\<close>; the question that goes on is
  \<open>question[6:].strip()\<close>.
\<close>

definition detect_reasoning :: "env \<Rightarrow> pystr \<Rightarrow> bool \<times> pystr" where
  "detect_reasoning e q =
     (if startswith (lower e q) (ascii ''think:'') then (True, strip (drop 6 q)) else (False, q))"

definition short_title :: "Paper \<Rightarrow> pystr" where
  "short_title ref_paper =
     (if 60 < length (title ref_paper) then take 60 (title ref_paper) @ ascii ''...''
      else title ref_paper)"

text \<open>
  The loop over the referenced ids. A reference that cannot be fetched is skipped. Stage 1
  runs on a paper not yet judged, Stage 2 on a relevant paper with no detailed summary.
\<close>

fun resolve_references ::
  "env \<Rightarrow> Config \<Rightarrow> pystr list \<Rightarrow> Paper list \<Rightarrow> (pystr \<times> pystr) list \<Rightarrow> world
     \<Rightarrow> Paper list \<times> (pystr \<times> pystr) list \<times> world" where
  "resolve_references e config [] referenced_papers id_to_title w =
     (referenced_papers, id_to_title, w)"
| "resolve_references e config (ref_id # rest) referenced_papers id_to_title w =
     (case fetch_single_paper e ref_id w of
        (Raises err, w1) \<Rightarrow> resolve_references e config rest referenced_papers id_to_title w1
      | (Returns p0, w1) \<Rightarrow>
          (case (if is_relevant p0 = None then stage1_filter e p0 config w1 else (p0, w1)) of
             (p1, w2) \<Rightarrow>
               (case (if is_relevant p1 = Some True \<and> detailed_summary p1 = []
                      then stage2_qa e p1 config w2 else (p1, w2)) of
                  (p2, w3) \<Rightarrow>
                    resolve_references e config rest (referenced_papers @ [p2])
                      (dict_set id_to_title ref_id (short_title p2)) w3)))"

definition content_of :: "Paper \<Rightarrow> pystr" where
  "content_of paper = str_or (html_content paper) (abstract paper)"

definition reference_context :: "Paper \<Rightarrow> Paper list \<Rightarrow> pystr" where
  "reference_context paper referenced_papers =
     join [10]
       ([ascii ''=== CURRENT PAPER ==='',
         ascii ''Title: '' @ title paper,
         ascii ''Content:'' @ [10] @ content_of paper,
         []]
        @ concat (map (\<lambda>(idx, ref_paper).
             [ascii ''=== REFERENCE PAPER '' @ str_nat idx @ ascii '' ==='',
              ascii ''Title: '' @ title ref_paper,
              ascii ''Content:'' @ [10] @ content_of ref_paper,
              []])
            (zip [1 ..< Suc (length referenced_papers)] referenced_papers)))"

definition enhance_question :: "pystr \<Rightarrow> (pystr \<times> pystr) list \<Rightarrow> pystr" where
  "enhance_question q id_to_title =
     foldl (\<lambda>s (ref_id, t). replace s ([91] @ ref_id @ [93]) ([34] @ t @ [34])) q id_to_title"

text \<open>The context and the final question, with or without resolved references.\<close>

definition build_context ::
  "Paper \<Rightarrow> Paper list \<Rightarrow> (pystr \<times> pystr) list \<Rightarrow> pystr \<Rightarrow> pystr \<times> pystr" where
  "build_context paper referenced_papers id_to_title q =
     (if referenced_papers \<noteq> []
      then (reference_context paper referenced_papers, enhance_question q id_to_title)
      else (cache_prefix_of paper, q))"

text \<open>
  The walk along the parent links: \<open>while current_id is not None\<close>. Each step reads
  \<open>qa_pairs[current_id]\<close>, puts its question and answer in front of the history and goes
  to its parent. The walk need not end, so its result is an option: \<open>None\<close> when it runs
  forever; an index out of range raises.
\<close>

partial_function (option) walk_parents ::
  "QAPair list \<Rightarrow> int option \<Rightarrow> (pystr \<times> pystr) list \<Rightarrow> (py_error + (pystr \<times> pystr) list) option" where
  "walk_parents qas current_id history =
     (case current_id of
        None \<Rightarrow> Some (Inr history)
      | Some i \<Rightarrow>
          (case py_index qas i of
             None \<Rightarrow> Some (Inl IndexError)
           | Some qa \<Rightarrow> walk_parents qas (parent_qa_id qa) ((question qa, answer qa) # history)))"

declare walk_parents.simps [code]

definition build_history ::
  "Paper \<Rightarrow> int option \<Rightarrow> (py_error + (pystr \<times> pystr) list) option" where
  "build_history paper parent =
     (case parent of
        None \<Rightarrow> Some (Inr [])
      | Some i \<Rightarrow>
          if 0 \<le> i \<and> i < int (length (qa_pairs paper))
          then walk_parents (qa_pairs paper) (Some i) []
          else Some (Inr []))"

text \<open>The messages of \<open>_ask_question_stream\<close>: the earlier turns, then the current question.\<close>

definition stream_messages ::
  "Config \<Rightarrow> pystr \<Rightarrow> pystr \<Rightarrow> (pystr \<times> pystr) list option \<Rightarrow> (role \<times> pystr) list" where
  "stream_messages config cache_prefix q conversation_history =
     [(System, system_prompt config)]
     @ (case conversation_history of
          None \<Rightarrow> []
        | Some h \<Rightarrow> concat (map (\<lambda>(cq, ca). [(User, ascii ''Question: '' @ cq), (Assistant, ca)]) h))
     @ [(User, cache_prefix @ question_sep @ q)]"

definition stream_request ::
  "Config \<Rightarrow> pystr \<Rightarrow> (role \<times> pystr) list \<Rightarrow> request" where
  "stream_request config model' messages =
     \<lparr>rq_model = str_or model' (model config),
      rq_messages = messages,
      rq_temperature = temperature config,
      rq_max_tokens = max_tokens config,
      rq_json = False,
      rq_stream = True\<rparr>"

text \<open>What \<open>_ask_question_stream\<close> yields for one chunk of the service.\<close>

datatype chunk = Thinking pystr | Content pystr

definition content_part :: "pystr option \<Rightarrow> chunk list" where
  "content_part c = (case c of None \<Rightarrow> [] | Some t \<Rightarrow> if t \<noteq> [] then [Content t] else [])"

definition thinking_part :: "pystr option \<Rightarrow> chunk list" where
  "thinking_part c = (case c of None \<Rightarrow> [] | Some t \<Rightarrow> if t \<noteq> [] then [Thinking t] else [])"

fun yields_of :: "bool \<Rightarrow> raw_chunk \<Rightarrow> chunk list" where
  "yields_of reasoning NoChoices = []"
| "yields_of reasoning NoDelta = []"
| "yields_of reasoning (Delta rc c) =
     (if reasoning then thinking_part rc @ content_part c else content_part c)"

text \<open>
  One pass over \<open>_ask_question_stream\<close>, as the \<open>n\<close>-th request to the service: the chunks
  it yields and how it ends (\<open>None\<close> when the stream ends, the error when it raises, at the
  request or later).
\<close>

definition stream_reply :: "env \<Rightarrow> request \<Rightarrow> bool \<Rightarrow> nat \<Rightarrow> chunk list \<times> pystr option" where
  "stream_reply e rq reasoning n =
     (case chat_stream e n rq of
        Raises err \<Rightarrow> ([], Some err)
      | Returns (raws, ending) \<Rightarrow> (concat (map (yields_of reasoning) raws), ending))"

definition ask_question_stream ::
  "env \<Rightarrow> request \<Rightarrow> bool \<Rightarrow> world \<Rightarrow> (chunk list \<times> pystr option) \<times> world" where
  "ask_question_stream e rq reasoning w =
     (stream_reply e rq reasoning (length (calls w)), w\<lparr>calls := calls w @ [rq]\<rparr>)"

datatype event = ThinkingEvent pystr | ContentEvent pystr | ErrorEvent pystr

fun event_of :: "chunk \<Rightarrow> event" where
  "event_of (Thinking t) = ThinkingEvent t"
| "event_of (Content t) = ContentEvent t"

fun thinking_text :: "chunk \<Rightarrow> pystr" where
  "thinking_text (Thinking t) = t"
| "thinking_text (Content t) = []"

fun content_text :: "chunk \<Rightarrow> pystr" where
  "content_text (Thinking t) = []"
| "content_text (Content t) = t"

definition retry_notice :: "nat \<Rightarrow> pystr" where
  "retry_notice wait_time =
     [9888, 65039, 32] @ ascii ''Connection error, retrying in '' @ str_nat wait_time
       @ ascii ''s...'' @ [10]"

definition final_notice :: "nat \<Rightarrow> pystr \<Rightarrow> pystr" where
  "final_notice max_retries err =
     [10060, 32] @ ascii ''Failed after '' @ str_nat max_retries @ ascii '' attempts: '' @ err"

text \<open>
  The retry loop of \<open>ask_custom_question_stream\<close>. Its state: the events yielded so far,
  \<open>full_answer\<close>, \<open>full_thinking\<close>, \<open>success\<close>, whether the generator has returned from
  inside the loop, and the world.
\<close>

record stream_state =
  st_events :: "event list"
  st_answer :: pystr
  st_thinking :: pystr
  st_success :: bool
  st_returned :: bool
  st_world :: world

fun stream_attempts ::
  "env \<Rightarrow> request \<Rightarrow> bool \<Rightarrow> nat \<Rightarrow> nat list \<Rightarrow> stream_state \<Rightarrow> stream_state" where
  "stream_attempts e rq reasoning max_retries [] st = st"
| "stream_attempts e rq reasoning max_retries (attempt # rest) st =
     (case ask_question_stream e rq reasoning (st_world st) of
        ((chunks, ending), w') \<Rightarrow>
          (let st1 = st\<lparr>st_events := st_events st @ map event_of chunks,
                        st_answer := concat (map content_text chunks),
                        st_thinking := concat (map thinking_text chunks),
                        st_world := w'\<rparr>
           in case ending of
                None \<Rightarrow> st1\<lparr>st_success := True\<rparr>
              | Some err \<Rightarrow>
                  if attempt < max_retries - 1
                  then stream_attempts e rq reasoning max_retries rest
                         (st1\<lparr>st_events := st_events st1 @ [ErrorEvent (retry_notice (2 ^ attempt))],
                              st_world := w'\<lparr>sleeps := sleeps w' @ [2 ^ attempt]\<rparr>\<rparr>)
                  else st1\<lparr>st_events := st_events st1 @ [ErrorEvent (final_notice max_retries err)],
                           st_returned := True\<rparr>))"

text \<open>
  The first steps of \<open>ask_custom_question_stream\<close>: reasoning mode, then the references of
  the stripped question.
\<close>

record plan =
  pl_is_reasoning :: bool
  pl_question :: pystr
  pl_referenced :: "Paper list"
  pl_titles :: "(pystr \<times> pystr) list"
  pl_world :: world

definition plan_question :: "env \<Rightarrow> pystr \<Rightarrow> Config \<Rightarrow> world \<Rightarrow> plan" where
  "plan_question e q config w =
     (case detect_reasoning e q of
        (reasoning, q1) \<Rightarrow>
          (case resolve_references e config (findall_ids (is_digit e) q1) [] [] w of
             (referenced_papers, id_to_title, w1) \<Rightarrow>
               \<lparr>pl_is_reasoning = reasoning, pl_question = q1,
                pl_referenced = referenced_papers, pl_titles = id_to_title, pl_world = w1\<rparr>))"

text \<open>The streamed request: context, final question, model and history.\<close>

definition plan_request ::
  "Config \<Rightarrow> Paper \<Rightarrow> plan \<Rightarrow> (pystr \<times> pystr) list option \<Rightarrow> request" where
  "plan_request config paper pl conversation_history =
     (case build_context paper (pl_referenced pl) (pl_titles pl) (pl_question pl) of
        (cache_prefix, final_question) \<Rightarrow>
          stream_request config
            (if pl_is_reasoning pl then ascii ''deepseek-reasoner'' else model config)
            (stream_messages config cache_prefix final_question conversation_history))"

text \<open>
  What a run of the generator leaves: the events it yielded, the error it raised if any,
  the paper object and the world.
\<close>

record stream_run =
  sr_events :: "event list"
  sr_error :: "py_error option"
  sr_paper :: Paper
  sr_world :: world

definition ask_custom_question_stream ::
  "env \<Rightarrow> Paper \<Rightarrow> pystr \<Rightarrow> Config \<Rightarrow> int option \<Rightarrow> world \<Rightarrow> stream_run option" where
  "ask_custom_question_stream e paper q config parent w =
     (let pl = plan_question e q config w in
      case build_history paper parent of
        None \<Rightarrow> None
      | Some (Inl err) \<Rightarrow>
          Some \<lparr>sr_events = [], sr_error = Some err, sr_paper = paper, sr_world = pl_world pl\<rparr>
      | Some (Inr conversation_history) \<Rightarrow>
          (let rq = plan_request config paper pl
                      (if parent \<noteq> None then Some conversation_history else None);
               st = stream_attempts e rq (pl_is_reasoning pl) 3 [0 ..< 3]
                      \<lparr>st_events = [], st_answer = [], st_thinking = [], st_success = False,
                       st_returned = False, st_world = pl_world pl\<rparr>
           in if \<not> st_returned st \<and> st_success st \<and> (st_answer st \<noteq> [] \<or> st_thinking st \<noteq> [])
              then (let paper' = paper\<lparr>qa_pairs := qa_pairs paper @
                                  [\<lparr>question = q, answer = st_answer st,
                                    thinking = (if pl_is_reasoning pl then Some (st_thinking st) else None),
                                    is_reasoning = pl_is_reasoning pl,
                                    parent_qa_id = parent\<rparr>]\<rparr>
                    in Some \<lparr>sr_events = st_events st, sr_error = None, sr_paper = paper',
                             sr_world = save_paper paper' (st_world st)\<rparr>)
              else Some \<lparr>sr_events = st_events st, sr_error = None, sr_paper = paper,
                         sr_world = st_world st\<rparr>))"

text \<open>
  \<open>ask_custom_question\<close>, the synchronous variant: references of the question as given, one
  request without retry (an error goes to the caller), then the QAPair and the save.
\<close>

definition ask_custom_question ::
  "env \<Rightarrow> Paper \<Rightarrow> pystr \<Rightarrow> Config \<Rightarrow> world \<Rightarrow> pystr outcome \<times> Paper \<times> world" where
  "ask_custom_question e paper q config w =
     (case resolve_references e config (findall_ids (is_digit e) q) [] [] w of
        (referenced_papers, id_to_title, w1) \<Rightarrow>
          (case build_context paper referenced_papers id_to_title q of
             (cache_prefix, final_question) \<Rightarrow>
               (case ask_question e cache_prefix final_question config w1 of
                  (Raises err, w2) \<Rightarrow> (Raises err, paper, w2)
                | (Returns a, w2) \<Rightarrow>
                    (let paper' = paper\<lparr>qa_pairs := qa_pairs paper @ [QAPair_default q a]\<rparr>
                     in (Returns a, paper', save_paper paper' w2)))))"

section \<open>Notions used in the statements\<close>

text \<open>
  The requests of a Stage 2 run, in the words of the specification: the run succeeds when
  each of its requests, the summary and then the preset questions in order, has an answer
  after its retries. \<open>answered\<close> lists the questions answered before the first one that
  has none, with their answers.
\<close>

fun all_answered :: "env \<Rightarrow> pystr \<Rightarrow> Config \<Rightarrow> pystr list \<Rightarrow> world \<Rightarrow> bool" where
  "all_answered e cache_prefix config [] w = True"
| "all_answered e cache_prefix config (q # qs) w =
     (case ask_question_with_retry e cache_prefix q config w of
        (None, w') \<Rightarrow> False
      | (Some a, w') \<Rightarrow> all_answered e cache_prefix config qs w')"

fun answered :: "env \<Rightarrow> pystr \<Rightarrow> Config \<Rightarrow> pystr list \<Rightarrow> world \<Rightarrow> (pystr \<times> pystr) list" where
  "answered e cache_prefix config [] w = []"
| "answered e cache_prefix config (q # qs) w =
     (case ask_question_with_retry e cache_prefix q config w of
        (None, w') \<Rightarrow> []
      | (Some a, w') \<Rightarrow> (q, a) # answered e cache_prefix config qs w')"

definition stage2_succeeds :: "env \<Rightarrow> Paper \<Rightarrow> Config \<Rightarrow> world \<Rightarrow> bool" where
  "stage2_succeeds e paper config w =
     all_answered e (cache_prefix_of paper) config
       (detailed_summary_question # preset_questions config) w"

section \<open>Sample inputs\<close>

definition sample_paper :: Paper where
  "sample_paper =
     \<lparr>paper_id = ascii ''2401.00001'', title = ascii ''T'', authors = [], abstract = ascii ''A'',
      url = [], html_url = [], html_content = [], preview_text = ascii ''A'',
      is_relevant = Some True, relevance_score = Fin 8, extracted_keywords = [ascii ''vla''],
      one_line_summary = [], detailed_summary = [], qa_pairs = [], is_hidden = False,
      is_starred = False, published_date = []\<rparr>"

definition sample_config :: Config where
  "sample_config =
     \<lparr>filter_keywords = [ascii ''vla''], negative_keywords = [ascii ''Medical''],
      preset_questions = [ascii ''q1'', ascii ''q2''], system_prompt = ascii ''sys'',
      model = ascii ''deepseek-chat'', temperature = Fin 0.3, max_tokens = 2000,
      concurrent_papers = 3, min_relevance_score_for_stage2 = Fin 6\<rparr>"

definition empty_world :: world where
  "empty_world = \<lparr>store = Map.empty, calls = [], sleeps = []\<rparr>"

text \<open>Lower case on the ASCII letters, for the sample environments.\<close>

definition ascii_lower :: "pystr \<Rightarrow> pystr" where
  "ascii_lower s = map (\<lambda>c. if 65 \<le> c \<and> c \<le> 90 then c + 32 else c) s"

text \<open>
  A sample environment: the reply to the \<open>n\<close>-th request is \<open>f n\<close> for a completion and
  \<open>g n\<close> for a stream, every judgment parses to \<open>j\<close>, and arXiv is unreachable.
\<close>

definition sample_env ::
  "(nat \<Rightarrow> pystr outcome) \<Rightarrow> (nat \<Rightarrow> (raw_chunk list \<times> pystr option) outcome)
     \<Rightarrow> stage1_json outcome \<Rightarrow> env" where
  "sample_env f g j =
     \<lparr>chat = (\<lambda>n rq. f n), chat_stream = (\<lambda>n rq. g n), json_loads = (\<lambda>s. j),
      fetch_remote = (\<lambda>i. Raises (ascii ''unreachable'')), lower = ascii_lower,
      is_digit = (\<lambda>c. 48 \<le> c \<and> c \<le> 57)\<rparr>"

text \<open>Two failures, then answers; and answers until the \<open>k\<close>-th request, then failures.\<close>

definition flaky :: "nat \<Rightarrow> pystr outcome" where
  "flaky n = (if n < 2 then Raises (ascii ''timeout'') else Returns (ascii ''ok''))"

definition dies_at :: "nat \<Rightarrow> nat \<Rightarrow> pystr outcome" where
  "dies_at k n = (if n < k then Returns (ascii ''ok'') else Raises (ascii ''down''))"

definition no_stream :: "nat \<Rightarrow> (raw_chunk list \<times> pystr option) outcome" where
  "no_stream n = Raises (ascii ''down'')"

definition flaky_env :: env where
  "flaky_env = sample_env flaky no_stream (Raises [])"

definition dying_env :: env where
  "dying_env = sample_env (dies_at 2) no_stream (Raises [])"

text \<open>The world after the summary request of the sample paper was answered at once.\<close>

definition after_summary :: world where
  "after_summary =
     \<lparr>store = Map.empty,
      calls = [ask_request sample_config (cache_prefix_of sample_paper) detailed_summary_question],
      sleeps = []\<rparr>"

text \<open>Papers and a store for the negative-keyword checks; a judgment with a score of 15.\<close>

definition medical_paper :: Paper where
  "medical_paper = sample_paper\<lparr>paper_id := ascii ''2401.00002'', title := ascii ''MEDICAL x''\<rparr>"

definition fresh_paper :: Paper where
  "fresh_paper = sample_paper\<lparr>is_relevant := None, relevance_score := Fin 0, extracted_keywords := []\<rparr>"

definition overscore :: stage1_json where
  "overscore = \<lparr>jd_is_relevant = Some (Some True), jd_relevance_score = Some (Fin 15),
      jd_extracted_keywords = Some [ascii ''vla''], jd_one_line_summary = Some (ascii ''s'')\<rparr>"

definition overscore_env :: env where
  "overscore_env = sample_env (\<lambda>n. Returns (ascii ''{}'')) no_stream (Returns overscore)"




text \<open>Streams for the sample environments, and a paper whose only entry is its own parent.\<close>

definition quiet_stream :: "nat \<Rightarrow> (raw_chunk list \<times> pystr option) outcome" where
  "quiet_stream n = Returns ([], None)"

definition quiet_env :: env where
  "quiet_env = sample_env flaky quiet_stream (Raises [])"

definition cut_then_talk :: "nat \<Rightarrow> (raw_chunk list \<times> pystr option) outcome" where
  "cut_then_talk n =
     (if n = 0 then Returns ([Delta None (Some (ascii ''par''))], Some (ascii ''cut''))
      else Returns ([Delta (Some (ascii ''hm'')) (Some (ascii ''yes'')), NoDelta,
                     Delta None (Some (ascii ''!''))], None))"

definition talk_env :: env where
  "talk_env = sample_env flaky cut_then_talk (Raises [])"

definition hollow_stream :: "nat \<Rightarrow> (raw_chunk list \<times> pystr option) outcome" where
  "hollow_stream n = Returns ([NoChoices, Delta None (Some [])], None)"

definition hollow_env :: env where
  "hollow_env = sample_env flaky hollow_stream (Raises [])"

definition down_env :: env where
  "down_env = sample_env flaky no_stream (Raises [])"

definition chatty_stream :: "nat \<Rightarrow> (raw_chunk list \<times> pystr option) outcome" where
  "chatty_stream n = Returns ([Delta None (Some (ascii ''yes''))], None)"

definition chatty_env :: env where
  "chatty_env = sample_env flaky chatty_stream (Raises [])"

definition looped_paper :: Paper where
  "looped_paper =
     sample_paper\<lparr>qa_pairs := [\<lparr>question = ascii ''why'', answer = ascii ''yes'', thinking = None,
                                 is_reasoning = False, parent_qa_id = Some 0\<rparr>]\<rparr>"






section \<open>Stage 2 and the store\<close>

lemma upt_0_3: "[0 ..< 3] = [0, 1, 2]"
  by (simp add: upt_rec)

lemma ask_question_store: "store (snd (ask_question e cp q config w)) = store w"
  by (simp add: ask_question_def Let_def)

lemma ask_attempts_store:
  "store (snd (ask_attempts e cp q config m as w)) = store w"
proof (induction as arbitrary: w)
  case Nil
  show ?case by simp
next
  case (Cons a as)
  show ?case
  proof (cases "ask_question e cp q config w")
    case (Pair r w')
    have s: "store w' = store w"
      using ask_question_store [of e cp q config w] Pair by simp
    show ?thesis
    proof (cases r)
      case (Returns x)
      with Pair s show ?thesis by simp
    next
      case (Raises err)
      with Pair s Cons.IH [of "w'\<lparr>sleeps := sleeps w' @ [2 ^ a]\<rparr>"] show ?thesis by simp
    qed
  qed
qed

lemma retry_store:
  "ask_question_with_retry e cp q config w = (r, w') \<Longrightarrow> store w' = store w"
  using ask_attempts_store [of e cp q config 3 "[0 ..< 3]" w]
  by (simp add: ask_question_with_retry_def)

lemma ask_presets_paper:
  "fst (ask_presets e cp config qs paper w) =
     paper\<lparr>qa_pairs := qa_pairs paper
              @ map (\<lambda>(q, a). QAPair_default q a) (answered e cp config qs w)\<rparr>"
proof (induction qs arbitrary: paper w)
  case Nil
  show ?case by simp
next
  case (Cons q qs)
  show ?case
  proof (cases "ask_question_with_retry e cp q config w")
    case (Pair r w')
    show ?thesis
    proof (cases r)
      case None
      with Pair show ?thesis by simp
    next
      case (Some a)
      with Pair Cons.IH show ?thesis by simp
    qed
  qed
qed

lemma ask_presets_flag:
  "fst (snd (ask_presets e cp config qs paper w)) = all_answered e cp config qs w"
proof (induction qs arbitrary: paper w)
  case Nil
  show ?case by simp
next
  case (Cons q qs)
  show ?case
    using Cons.IH
    by (cases "ask_question_with_retry e cp q config w") (simp split: option.splits)
qed

lemma ask_presets_store:
  "store (snd (snd (ask_presets e cp config qs paper w))) = store w"
proof (induction qs arbitrary: paper w)
  case Nil
  show ?case by simp
next
  case (Cons q qs)
  show ?case
  proof (cases "ask_question_with_retry e cp q config w")
    case (Pair r w')
    then have "store w' = store w" by (rule retry_store)
    with Pair Cons.IH show ?thesis by (simp split: option.splits)
  qed
qed

lemma answered_all:
  "all_answered e cp config qs w \<Longrightarrow> map fst (answered e cp config qs w) = qs"
proof (induction qs arbitrary: w)
  case Nil
  show ?case by simp
next
  case (Cons q qs)
  then show ?case
    by (cases "ask_question_with_retry e cp q config w") (auto split: option.splits)
qed

lemma question_of_default:
  "map (question \<circ> (\<lambda>(q, a). QAPair_default q a)) xs = map fst xs"
  by (induction xs) (auto simp: QAPair_default_def)

lemma flaky_succeeds: "stage2_succeeds flaky_env sample_paper sample_config empty_world"
  by (simp add: stage2_succeeds_def ask_question_with_retry_def upt_0_3 ask_question_def
      flaky_env_def sample_env_def flaky_def sample_config_def empty_world_def Let_def)

lemma dying_fails: "\<not> stage2_succeeds dying_env sample_paper sample_config empty_world"
  by (simp add: stage2_succeeds_def ask_question_with_retry_def upt_0_3 ask_question_def
      dying_env_def sample_env_def dies_at_def sample_config_def empty_world_def Let_def)

text \<open>
  C1. Deep analysis is all-or-nothing for the store. After \<open>stage2_qa\<close> the store holds the
  returned record under the paper's id exactly when the paper is relevant and the summary
  request and every preset question have an answer; that record then carries one new
  QAPair per preset question. In every other case, so whenever one of the requests ends
  without an answer after its retries, the store is the one from before the run.
\<close>

theorem stage2_all_or_nothing:
  "store (snd (stage2_qa e paper config w)) =
     (if is_relevant paper = Some True \<and> stage2_succeeds e paper config w
      then (store w)(paper_id paper \<mapsto> fst (stage2_qa e paper config w))
      else store w)
   \<and> (is_relevant paper = Some True \<and> stage2_succeeds e paper config w \<longrightarrow>
        map question (drop (length (qa_pairs paper)) (qa_pairs (fst (stage2_qa e paper config w))))
          = preset_questions config)"
proof (cases "is_relevant paper = Some True")
  case False
  then show ?thesis by (simp add: stage2_qa_def)
next
  case True
  let ?cp = "cache_prefix_of paper"
  show ?thesis
  proof (cases "ask_question_with_retry e ?cp detailed_summary_question config w")
    case (Pair r w1)
    then have s1: "store w1 = store w" by (rule retry_store)
    show ?thesis
    proof (cases r)
      case None
      with True Pair s1 show ?thesis by (simp add: stage2_qa_def stage2_succeeds_def)
    next
      case (Some s)
      let ?p = "paper\<lparr>detailed_summary := s\<rparr>"
      obtain p' ok w2 where ap:
        "ask_presets e ?cp config (preset_questions config) ?p w1 = (p', ok, w2)"
        by (cases "ask_presets e ?cp config (preset_questions config) ?p w1") auto
      have ok: "ok = all_answered e ?cp config (preset_questions config) w1"
        using ask_presets_flag [of e ?cp config "preset_questions config" ?p w1] ap by simp
      have s2: "store w2 = store w"
        using ask_presets_store [of e ?cp config "preset_questions config" ?p w1] ap s1
        by simp
      have p': "p' = ?p\<lparr>qa_pairs := qa_pairs ?p @ map (\<lambda>(q, a). QAPair_default q a)
                    (answered e ?cp config (preset_questions config) w1)\<rparr>"
        using ask_presets_paper [of e ?cp config "preset_questions config" ?p w1] ap by simp
      have qs: "ok \<Longrightarrow> map question (drop (length (qa_pairs paper)) (qa_pairs p'))
                  = preset_questions config"
      proof -
        assume ok
        with ok have "map fst (answered e ?cp config (preset_questions config) w1)
                        = preset_questions config"
          by (simp add: answered_all)
        then show ?thesis using p' by (simp add: question_of_default)
      qed
      have pid: "paper_id p' = paper_id paper" using p' by simp
      show ?thesis
        using True Pair Some ap ok s2 pid qs
        by (simp add: stage2_qa_def stage2_succeeds_def save_paper_def)
    qed
  qed
qed

theorem stage2_all_or_nothing_witness:
  "is_relevant sample_paper = Some True
   \<and> stage2_succeeds flaky_env sample_paper sample_config empty_world
   \<and> store (snd (stage2_qa flaky_env sample_paper sample_config empty_world)) =
       [paper_id sample_paper \<mapsto> fst (stage2_qa flaky_env sample_paper sample_config empty_world)]
   \<and> map question (qa_pairs (fst (stage2_qa flaky_env sample_paper sample_config empty_world)))
       = [ascii ''q1'', ascii ''q2'']
   \<and> \<not> stage2_succeeds dying_env sample_paper sample_config empty_world
   \<and> store (snd (stage2_qa dying_env sample_paper sample_config empty_world)) = Map.empty"
  using stage2_all_or_nothing [of flaky_env sample_paper sample_config empty_world]
    stage2_all_or_nothing [of dying_env sample_paper sample_config empty_world]
    flaky_succeeds dying_fails
  by (simp add: sample_paper_def empty_world_def sample_config_def)

section \<open>Stage 2: requests and the returned paper\<close>

lemma ask_attempts_calls:
  "\<exists>k. calls (snd (ask_attempts e cp q config m as w)) = calls w @ replicate k (ask_request config cp q)"
proof (induction as arbitrary: w)
  case Nil
  have "calls w = calls w @ replicate 0 (ask_request config cp q)" by simp
  then show ?case by (simp del: replicate.simps) 
next
  case (Cons a as)
  let ?rq = "ask_request config cp q"
  let ?w' = "w\<lparr>calls := calls w @ [?rq]\<rparr>"
  have aq: "ask_question e cp q config w = (chat e (length (calls w)) ?rq, ?w')"
    by (simp add: ask_question_def Let_def)
  show ?case
  proof (cases "chat e (length (calls w)) ?rq")
    case (Returns x)
    with aq have "calls (snd (ask_attempts e cp q config m (a # as) w)) = calls w @ replicate 1 ?rq"
      by simp
    then show ?thesis by blast
  next
    case (Raises err)
    show ?thesis
    proof (cases "a < m - 1")
      case False
      with aq Raises have "calls (snd (ask_attempts e cp q config m (a # as) w)) = calls w @ replicate 1 ?rq"
        by simp
      then show ?thesis by blast
    next
      case True
      from Cons.IH [of "?w'\<lparr>sleeps := sleeps ?w' @ [2 ^ a]\<rparr>"]
      obtain k where "calls (snd (ask_attempts e cp q config m as (?w'\<lparr>sleeps := sleeps ?w' @ [2 ^ a]\<rparr>)))
          = calls w @ [?rq] @ replicate k ?rq" by auto
      with aq Raises True
      have "calls (snd (ask_attempts e cp q config m (a # as) w)) = calls w @ replicate (Suc k) ?rq"
        by simp
      then show ?thesis by blast
    qed
  qed
qed

lemma retry_calls:
  "\<exists>k. calls (snd (ask_question_with_retry e cp q config w)) = calls w @ replicate k (ask_request config cp q)"
  unfolding ask_question_with_retry_def by (rule ask_attempts_calls)

lemma ask_presets_calls:
  "\<exists>qs'. set qs' \<subseteq> set qs \<and>
     calls (snd (snd (ask_presets e cp config qs paper w))) = calls w @ map (ask_request config cp) qs'"
proof (induction qs arbitrary: paper w)
  case Nil
  have "set [] \<subseteq> set ([]::pystr list) \<and> calls w = calls w @ map (ask_request config cp) []" by simp
  then show ?case by (simp del: map_is_Nil_conv) 
next
  case (Cons q qs)
  obtain r w' where rw: "ask_question_with_retry e cp q config w = (r, w')"
    by (cases "ask_question_with_retry e cp q config w") auto
  from retry_calls [of e cp q config w] rw
  obtain k where k: "calls w' = calls w @ map (ask_request config cp) (replicate k q)"
    by auto
  have sub: "set (replicate k q) \<subseteq> set (q # qs)" by auto
  show ?case
  proof (cases r)
    case None
    with rw k have "calls (snd (snd (ask_presets e cp config (q # qs) paper w)))
       = calls w @ map (ask_request config cp) (replicate k q)" by simp
    with sub show ?thesis by blast
  next
    case (Some a)
    let ?p = "paper\<lparr>qa_pairs := qa_pairs paper @ [QAPair_default q a]\<rparr>"
    from Cons.IH [of ?p w'] obtain qs' where qs': "set qs' \<subseteq> set qs"
      "calls (snd (snd (ask_presets e cp config qs ?p w'))) = calls w' @ map (ask_request config cp) qs'"
      by auto
    with rw Some k have "calls (snd (snd (ask_presets e cp config (q # qs) paper w)))
       = calls w @ map (ask_request config cp) (replicate k q @ qs')" by simp
    moreover have "set (replicate k q @ qs') \<subseteq> set (q # qs)" using qs'(1) by auto
    ultimately show ?thesis by blast
  qed
qed

text \<open>
  C3. The requests \<open>stage2_qa\<close> adds to the log are all built by \<open>ask_request\<close> from
  the same cache prefix, the one computed from the paper at entry, and from the summary
  question or a preset question. The user message of such a request is the prefix, the
  separator and the question, so two of these requests differ at most in the text after
  the separator.
\<close>

theorem stage2_cache_prefix:
  "\<exists>qs. set qs \<subseteq> set (detailed_summary_question # preset_questions config)
     \<and> calls (snd (stage2_qa e paper config w)) =
         calls w @ map (ask_request config (cache_prefix_of paper)) qs
     \<and> (\<forall>q. rq_messages (ask_request config (cache_prefix_of paper) q) =
           [(System, system_prompt config), (User, cache_prefix_of paper @ question_sep @ q)])"
proof -
  let ?cp = "cache_prefix_of paper"
  let ?Q = "detailed_summary_question # preset_questions config"
  have shape: "\<forall>q. rq_messages (ask_request config ?cp q) =
           [(System, system_prompt config), (User, ?cp @ question_sep @ q)]"
    by (simp add: ask_request_def)
  have "\<exists>qs. set qs \<subseteq> set ?Q \<and> calls (snd (stage2_qa e paper config w)) =
         calls w @ map (ask_request config ?cp) qs"
  proof (cases "is_relevant paper = Some True")
    case False
    then have "set [] \<subseteq> set ?Q \<and> calls (snd (stage2_qa e paper config w)) = calls w @ map (ask_request config ?cp) []"
      by (simp add: stage2_qa_def)
    then show ?thesis by blast
  next
    case True
    obtain r w1 where rw: "ask_question_with_retry e ?cp detailed_summary_question config w = (r, w1)"
      by (cases "ask_question_with_retry e ?cp detailed_summary_question config w") auto
    from retry_calls [of e ?cp detailed_summary_question config w] rw
    obtain k where k: "calls w1 = calls w @ map (ask_request config ?cp) (replicate k detailed_summary_question)"
      by auto
    have sub: "set (replicate k detailed_summary_question) \<subseteq> set ?Q" by auto
    show ?thesis
    proof (cases r)
      case None
      with True rw k have "calls (snd (stage2_qa e paper config w)) =
         calls w @ map (ask_request config ?cp) (replicate k detailed_summary_question)"
        by (simp add: stage2_qa_def)
      with sub show ?thesis by blast
    next
      case (Some s)
      let ?p = "paper\<lparr>detailed_summary := s\<rparr>"
      obtain p' ok w2 where ap: "ask_presets e ?cp config (preset_questions config) ?p w1 = (p', ok, w2)"
        by (cases "ask_presets e ?cp config (preset_questions config) ?p w1") auto
      from ask_presets_calls [of "preset_questions config" e ?cp config ?p w1] ap
      obtain qs' where qs': "set qs' \<subseteq> set (preset_questions config)"
        "calls w2 = calls w1 @ map (ask_request config ?cp) qs'" by auto
      from True rw Some ap have "calls (snd (stage2_qa e paper config w)) = calls w2"
        by (simp add: stage2_qa_def save_paper_def)
      with qs'(2) k have "calls (snd (stage2_qa e paper config w)) =
         calls w @ map (ask_request config ?cp) (replicate k detailed_summary_question @ qs')" by simp
      moreover have "set (replicate k detailed_summary_question @ qs') \<subseteq> set ?Q" using qs'(1) by auto
      ultimately show ?thesis by blast
    qed
  qed
  with shape show ?thesis by blast
qed

text \<open>
  C10. When the summary request is answered and a later preset question is not, the paper
  \<open>stage2_qa\<close> returns is the input with the new detailed summary and one QAPair for every
  question answered before the failure, while the store is unchanged.
\<close>

theorem stage2_partial_failure_mutates:
  assumes rel: "is_relevant paper = Some True"
    and summ: "ask_question_with_retry e (cache_prefix_of paper) detailed_summary_question config w = (Some s, w1)"
    and fail: "\<not> all_answered e (cache_prefix_of paper) config (preset_questions config) w1"
  shows "fst (stage2_qa e paper config w) =
           paper\<lparr>detailed_summary := s,
                 qa_pairs := qa_pairs paper @ map (\<lambda>(q, a). QAPair_default q a)
                    (answered e (cache_prefix_of paper) config (preset_questions config) w1)\<rparr>
         \<and> store (snd (stage2_qa e paper config w)) = store w"
proof -
  let ?cp = "cache_prefix_of paper"
  let ?p = "paper\<lparr>detailed_summary := s\<rparr>"
  obtain p' ok w2 where ap: "ask_presets e ?cp config (preset_questions config) ?p w1 = (p', ok, w2)"
    by (cases "ask_presets e ?cp config (preset_questions config) ?p w1") auto
  have ok: "\<not> ok"
    using ask_presets_flag [of e ?cp config "preset_questions config" ?p w1] ap fail by simp
  have p': "p' = ?p\<lparr>qa_pairs := qa_pairs ?p @ map (\<lambda>(q, a). QAPair_default q a)
                    (answered e ?cp config (preset_questions config) w1)\<rparr>"
    using ask_presets_paper [of e ?cp config "preset_questions config" ?p w1] ap by simp
  have s1: "store w1 = store w" using summ by (rule retry_store)
  have s2: "store w2 = store w"
    using ask_presets_store [of e ?cp config "preset_questions config" ?p w1] ap s1 by simp
  from rel summ ap ok p' s2 show ?thesis by (simp add: stage2_qa_def)
qed


theorem stage2_cache_prefix_witness:
  "calls (snd (stage2_qa flaky_env sample_paper sample_config empty_world)) =
     map (ask_request sample_config (cache_prefix_of sample_paper))
       [detailed_summary_question, detailed_summary_question, detailed_summary_question,
        ascii ''q1'', ascii ''q2'']
   \<and> (\<exists>qs. set qs \<subseteq> set (detailed_summary_question # preset_questions sample_config)
        \<and> calls (snd (stage2_qa flaky_env sample_paper sample_config empty_world)) =
            calls empty_world @ map (ask_request sample_config (cache_prefix_of sample_paper)) qs)"
proof -
  have "calls (snd (stage2_qa flaky_env sample_paper sample_config empty_world)) =
     map (ask_request sample_config (cache_prefix_of sample_paper))
       [detailed_summary_question, detailed_summary_question, detailed_summary_question,
        ascii ''q1'', ascii ''q2'']"
    by (simp add: stage2_qa_def ask_question_with_retry_def upt_0_3 ask_question_def
        flaky_env_def sample_env_def flaky_def sample_config_def empty_world_def Let_def
        save_paper_def sample_paper_def)
  moreover from stage2_cache_prefix [of sample_config flaky_env sample_paper empty_world]
  have "\<exists>qs. set qs \<subseteq> set (detailed_summary_question # preset_questions sample_config)
        \<and> calls (snd (stage2_qa flaky_env sample_paper sample_config empty_world)) =
            calls empty_world @ map (ask_request sample_config (cache_prefix_of sample_paper)) qs"
    by blast
  ultimately show ?thesis by blast
qed

lemma dying_summary:
  "ask_question_with_retry dying_env (cache_prefix_of sample_paper) detailed_summary_question
     sample_config empty_world = (Some (ascii ''ok''), after_summary)"
  by (simp add: ask_question_with_retry_def upt_0_3 ask_question_def dying_env_def
      sample_env_def dies_at_def empty_world_def after_summary_def Let_def)

lemma dying_presets:
  "\<not> all_answered dying_env (cache_prefix_of sample_paper) sample_config
       (preset_questions sample_config) after_summary"
  by (simp add: ask_question_with_retry_def upt_0_3 ask_question_def dying_env_def
      sample_env_def dies_at_def sample_config_def after_summary_def Let_def)

lemma dying_answered:
  "answered dying_env (cache_prefix_of sample_paper) sample_config
       (preset_questions sample_config) after_summary = [(ascii ''q1'', ascii ''ok'')]"
  by (simp add: ask_question_with_retry_def upt_0_3 ask_question_def dying_env_def
      sample_env_def dies_at_def sample_config_def after_summary_def Let_def)

theorem stage2_partial_failure_mutates_witness:
  "is_relevant sample_paper = Some True
   \<and> ask_question_with_retry dying_env (cache_prefix_of sample_paper) detailed_summary_question
       sample_config empty_world = (Some (ascii ''ok''), after_summary)
   \<and> \<not> all_answered dying_env (cache_prefix_of sample_paper) sample_config
         (preset_questions sample_config) after_summary
   \<and> detailed_summary (fst (stage2_qa dying_env sample_paper sample_config empty_world)) = ascii ''ok''
   \<and> qa_pairs (fst (stage2_qa dying_env sample_paper sample_config empty_world))
       = [QAPair_default (ascii ''q1'') (ascii ''ok'')]
   \<and> store (snd (stage2_qa dying_env sample_paper sample_config empty_world)) = Map.empty"
proof -
  have rel: "is_relevant sample_paper = Some True" by (simp add: sample_paper_def)
  from stage2_partial_failure_mutates [OF rel dying_summary dying_presets] rel dying_summary
    dying_presets dying_answered
  show ?thesis by (simp add: sample_paper_def empty_world_def)
qed

section \<open>Stage 1: the negative-keyword path and the score\<close>

lemma startswith_iff: "startswith s p \<longleftrightarrow> (\<exists>b. s = p @ b)"
proof (induction s p rule: startswith.induct)
  case (1 s)
  show ?case by simp
next
  case (2 p ps)
  show ?case by simp
next
  case (3 c cs p ps)
  then show ?case by auto
qed

lemma contains_iff: "contains s sub \<longleftrightarrow> (\<exists>a b. s = a @ sub @ b)"
proof (induction s)
  case Nil
  show ?case by auto
next
  case (Cons c cs)
  show ?case
  proof
    assume "contains (c # cs) sub"
    then consider "startswith (c # cs) sub" | "contains cs sub" by auto
    then show "\<exists>a b. c # cs = a @ sub @ b"
    proof cases
      case 1
      then obtain b where "c # cs = sub @ b" by (auto simp: startswith_iff)
      then have "c # cs = [] @ sub @ b" by simp
      then show ?thesis by blast
    next
      case 2
      with Cons.IH obtain a b where "cs = a @ sub @ b" by blast
      then have "c # cs = (c # a) @ sub @ b" by simp
      then show ?thesis by blast
    qed
  next
    assume "\<exists>a b. c # cs = a @ sub @ b"
    then obtain a b where ab: "c # cs = a @ sub @ b" by blast
    show "contains (c # cs) sub"
    proof (cases a)
      case Nil
      with ab have "startswith (c # cs) sub" by (auto simp: startswith_iff)
      then show ?thesis by simp
    next
      case (Cons a1 as)
      with ab have "cs = as @ sub @ b" by simp
      with Cons.IH have "contains cs sub" by blast
      then show ?thesis by simp
    qed
  qed
qed

lemma find_first:
  "\<forall>x \<in> set xs. \<not> P x \<Longrightarrow> P y \<Longrightarrow> find P (xs @ y # ys) = Some y"
  by (induction xs) auto

text \<open>
  C2, as the code has it. Let \<open>neg_kw\<close> be the first configured negative keyword whose
  lower-cased form occurs in the lower-cased text made of the title, a space and the
  preview. Then \<open>stage1_filter\<close> returns the paper with \<open>is_relevant\<close> false, score 1.0,
  the single extracted keyword made of U+274C, a space and the keyword, and the canned
  summary naming the keyword; it saves that record and sends no request, whatever the
  model service would have answered.
\<close>

theorem stage1_negative_fast_path:
  assumes split: "negative_keywords config = earlier @ neg_kw # later"
    and nomatch: "\<forall>k \<in> set earlier.
        \<not> (\<exists>a b. lower e (title paper @ [32] @ preview_text paper) = a @ lower e k @ b)"
    and match: "\<exists>a b. lower e (title paper @ [32] @ preview_text paper) = a @ lower e neg_kw @ b"
  shows "fst (stage1_filter e paper config w) =
           paper\<lparr>is_relevant := Some False,
                 relevance_score := Fin 1,
                 extracted_keywords := [[10060, 32] @ neg_kw],
                 one_line_summary := neg_kw_summary neg_kw\<rparr>
         \<and> snd (stage1_filter e paper config w) =
             w\<lparr>store := (store w)(paper_id paper \<mapsto> fst (stage1_filter e paper config w))\<rparr>
         \<and> calls (snd (stage1_filter e paper config w)) = calls w"
proof -
  have m: "neg_kw_matches e paper neg_kw"
    using match by (simp add: neg_kw_matches_def searchable_text_def contains_iff)
  have n: "\<forall>k \<in> set earlier. \<not> neg_kw_matches e paper k"
    using nomatch by (simp add: neg_kw_matches_def searchable_text_def contains_iff)
  have "find (neg_kw_matches e paper) (negative_keywords config) = Some neg_kw"
    unfolding split using n m by (rule find_first)
  moreover have "negative_keywords config \<noteq> []" using split by simp
  ultimately show ?thesis
    by (simp add: stage1_filter_def Let_def save_paper_def neg_kw_label_def)
qed

lemma medical_matches:
  "lower flaky_env (title medical_paper @ [32] @ preview_text medical_paper)
     = [] @ lower flaky_env (ascii ''Medical'') @ ascii '' x a''"
  by (simp add: flaky_env_def sample_env_def ascii_lower_def medical_paper_def sample_paper_def
      ascii_def)

theorem stage1_negative_fast_path_witness:
  "negative_keywords sample_config = [] @ ascii ''Medical'' # []
   \<and> lower flaky_env (title medical_paper @ [32] @ preview_text medical_paper)
         = [] @ lower flaky_env (ascii ''Medical'') @ ascii '' x a''
   \<and> is_relevant (fst (stage1_filter flaky_env medical_paper sample_config empty_world)) = Some False
   \<and> relevance_score (fst (stage1_filter flaky_env medical_paper sample_config empty_world)) = Fin 1
   \<and> extracted_keywords (fst (stage1_filter flaky_env medical_paper sample_config empty_world))
        = [[10060, 32] @ ascii ''Medical'']
   \<and> calls (snd (stage1_filter flaky_env medical_paper sample_config empty_world)) = []"
proof -
  have s: "negative_keywords sample_config = [] @ ascii ''Medical'' # []"
    by (simp add: sample_config_def)
  have n: "\<forall>k \<in> set []. \<not> (\<exists>a b. lower flaky_env (title medical_paper @ [32] @ preview_text medical_paper) = a @ lower flaky_env k @ b)"
    by simp
  have m: "\<exists>a b. lower flaky_env (title medical_paper @ [32] @ preview_text medical_paper) = a @ lower flaky_env (ascii ''Medical'') @ b"
    using medical_matches by blast
  from stage1_negative_fast_path [OF s n m, of empty_world] s medical_matches
  show ?thesis by (simp add: empty_world_def)
qed

text \<open>
  The label is not the one the specification gives: for the keyword \<open>Medical\<close> the
  extracted keyword starts with U+274C (10060), not with U+2717 (10007).
\<close>

theorem stage1_label_counterexample:
  "neg_kw_matches flaky_env medical_paper (ascii ''Medical'')
   \<and> extracted_keywords (fst (stage1_filter flaky_env medical_paper sample_config empty_world))
       \<noteq> [[10007, 32] @ ascii ''Medical'']"
  by (simp add: stage1_filter_def neg_kw_matches_def searchable_text_def flaky_env_def
      sample_env_def ascii_lower_def medical_paper_def sample_paper_def sample_config_def
      ascii_def Let_def neg_kw_label_def)

text \<open>
  C4. The score is meant to lie between 0 and 10. The manual update clamps it and the
  negative-keyword path sets 1.0, but the Stage 1 judgment is stored as the model gave it:
  with a judgment whose score is 15 and no negative keyword matching, the record returned
  and saved has the score 15, which is above 10.
\<close>

theorem stage1_llm_score_unclamped:
  "find (neg_kw_matches overscore_env fresh_paper) (negative_keywords sample_config) = None
   \<and> relevance_score (fst (stage1_filter overscore_env fresh_paper sample_config empty_world)) = Fin 15
   \<and> store (snd (stage1_filter overscore_env fresh_paper sample_config empty_world)) (paper_id fresh_paper)
       = Some (fst (stage1_filter overscore_env fresh_paper sample_config empty_world))
   \<and> \<not> flt_ge (Fin 10) (Fin 15)"
  by (simp add: stage1_filter_def neg_kw_matches_def searchable_text_def overscore_env_def
      sample_env_def ascii_lower_def fresh_paper_def sample_paper_def sample_config_def
      ascii_def Let_def upt_0_3 stage1_judge_def apply_judgment_def overscore_def
      empty_world_def save_paper_def)

text \<open>The manual update keeps the score between 0 and 10, also for an infinity or NaN.\<close>

lemma update_relevance_clamped:
  "update_relevance pid b x w = (Inr paper', w') \<Longrightarrow>
     flt_ge (relevance_score paper') (Fin 0) \<and> flt_ge (Fin 10) (relevance_score paper')"
  by (cases x) (auto simp: update_relevance_def py_max_def py_min_def Let_def split: option.splits if_splits)

section \<open>The re-filter sweep\<close>


























section \<open>The streamed question: retries and persistence\<close>

lemma attempts_ok0:
  assumes "stream_reply e rq b (length (calls w)) = (c0, None)"
  shows "stream_attempts e rq b 3 [0, 1, 2]
           \<lparr>st_events = [], st_answer = [], st_thinking = [], st_success = False,
            st_returned = False, st_world = w\<rparr> =
         \<lparr>st_events = map event_of c0,
          st_answer = concat (map content_text c0),
          st_thinking = concat (map thinking_text c0),
          st_success = True, st_returned = False,
          st_world = w\<lparr>calls := calls w @ [rq]\<rparr>\<rparr>"
  using assms by (simp add: ask_question_stream_def)

lemma attempts_ok1:
  assumes "stream_reply e rq b (length (calls w)) = (c0, Some e0)"
    and "stream_reply e rq b (Suc (length (calls w))) = (c1, None)"
  shows "stream_attempts e rq b 3 [0, 1, 2]
           \<lparr>st_events = [], st_answer = [], st_thinking = [], st_success = False,
            st_returned = False, st_world = w\<rparr> =
         \<lparr>st_events = map event_of c0 @ [ErrorEvent (retry_notice 1)] @ map event_of c1,
          st_answer = concat (map content_text c1),
          st_thinking = concat (map thinking_text c1),
          st_success = True, st_returned = False,
          st_world = w\<lparr>calls := calls w @ [rq, rq], sleeps := sleeps w @ [1]\<rparr>\<rparr>"
  using assms by (simp add: ask_question_stream_def)

lemma attempts_ok2:
  assumes "stream_reply e rq b (length (calls w)) = (c0, Some e0)"
    and "stream_reply e rq b (Suc (length (calls w))) = (c1, Some e1)"
    and "stream_reply e rq b (Suc (Suc (length (calls w)))) = (c2, None)"
  shows "stream_attempts e rq b 3 [0, 1, 2]
           \<lparr>st_events = [], st_answer = [], st_thinking = [], st_success = False,
            st_returned = False, st_world = w\<rparr> =
         \<lparr>st_events = map event_of c0 @ [ErrorEvent (retry_notice 1)] @ map event_of c1
                        @ [ErrorEvent (retry_notice 2)] @ map event_of c2,
          st_answer = concat (map content_text c2),
          st_thinking = concat (map thinking_text c2),
          st_success = True, st_returned = False,
          st_world = w\<lparr>calls := calls w @ [rq, rq, rq], sleeps := sleeps w @ [1, 2]\<rparr>\<rparr>"
  using assms by (simp add: ask_question_stream_def)

lemma attempts_fail:
  assumes "stream_reply e rq b (length (calls w)) = (c0, Some e0)"
    and "stream_reply e rq b (Suc (length (calls w))) = (c1, Some e1)"
    and "stream_reply e rq b (Suc (Suc (length (calls w)))) = (c2, Some e2)"
  shows "stream_attempts e rq b 3 [0, 1, 2]
           \<lparr>st_events = [], st_answer = [], st_thinking = [], st_success = False,
            st_returned = False, st_world = w\<rparr> =
         \<lparr>st_events = map event_of c0 @ [ErrorEvent (retry_notice 1)] @ map event_of c1
                        @ [ErrorEvent (retry_notice 2)] @ map event_of c2
                        @ [ErrorEvent (final_notice 3 e2)],
          st_answer = concat (map content_text c2),
          st_thinking = concat (map thinking_text c2),
          st_success = False, st_returned = True,
          st_world = w\<lparr>calls := calls w @ [rq, rq, rq], sleeps := sleeps w @ [1, 2]\<rparr>\<rparr>"
  using assms by (simp add: ask_question_stream_def)

lemma upt_0_Suc: "[0 ..< Suc 0] = [0]" "[0 ..< 2] = [0, 1]" "[0 ..< 3] = [0, 1, 2]"
  by (simp_all add: upt_rec)

lemma rep3: "replicate (Suc 2) x = [x, x, x]" "replicate 3 x = [x, x, x]"
  by (simp_all add: numeral_2_eq_2 numeral_3_eq_3)

lemma rep2: "replicate (Suc 1) x = [x, x]" "replicate 2 x = [x, x]"
  by (simp_all add: numeral_2_eq_2)

lemma attempts_success:
  fixes r :: "nat \<Rightarrow> chunk list \<times> pystr option"
  assumes r: "\<forall>i. r i = stream_reply e rq b (length (calls w) + i)"
    and k: "k < 3" and failed: "\<forall>i<k. snd (r i) \<noteq> None" and ok: "snd (r k) = None"
  shows "stream_attempts e rq b 3 [0 ..< 3]
           \<lparr>st_events = [], st_answer = [], st_thinking = [], st_success = False,
            st_returned = False, st_world = w\<rparr> =
         \<lparr>st_events = concat (map (\<lambda>i. map event_of (fst (r i)) @ [ErrorEvent (retry_notice (2 ^ i))]) [0 ..< k])
                        @ map event_of (fst (r k)),
          st_answer = concat (map content_text (fst (r k))),
          st_thinking = concat (map thinking_text (fst (r k))),
          st_success = True, st_returned = False,
          st_world = w\<lparr>calls := calls w @ replicate (Suc k) rq,
                         sleeps := sleeps w @ map (\<lambda>i. 2 ^ i) [0 ..< k]\<rparr>\<rparr>"
proof -
  have r0: "stream_reply e rq b (length (calls w)) = r 0" using r by simp
  have r1: "stream_reply e rq b (Suc (length (calls w))) = r 1" using r by simp
  have r2: "stream_reply e rq b (Suc (Suc (length (calls w)))) = r 2"
    using r by (simp add: numeral_2_eq_2)
  from k consider "k = 0" | "k = 1" | "k = 2" by linarith
  then show ?thesis
  proof cases
    case 1
    with ok r0 have "stream_reply e rq b (length (calls w)) = (fst (r 0), None)"
      by (simp add: prod_eq_iff)
    from attempts_ok0 [OF this] 1 show ?thesis by (simp add: upt_0_Suc)
  next
    case 2
    with failed obtain e0 where "snd (r 0) = Some e0" by auto
    with r0 have a: "stream_reply e rq b (length (calls w)) = (fst (r 0), Some e0)"
      by (simp add: prod_eq_iff)
    from 2 ok r1 have b: "stream_reply e rq b (Suc (length (calls w))) = (fst (r 1), None)"
      by (simp add: prod_eq_iff)
    from attempts_ok1 [OF a b] show ?thesis
      unfolding 2 upt_0_Suc by (simp add: rep2)
  next
    case 3
    with failed have "snd (r 0) \<noteq> None" "snd (r 1) \<noteq> None" by auto
    then obtain e0 e1 where "snd (r 0) = Some e0" "snd (r 1) = Some e1" by auto
    with r0 r1 have a: "stream_reply e rq b (length (calls w)) = (fst (r 0), Some e0)"
      and b: "stream_reply e rq b (Suc (length (calls w))) = (fst (r 1), Some e1)"
      by (simp_all add: prod_eq_iff)
    from 3 ok r2 have c: "stream_reply e rq b (Suc (Suc (length (calls w)))) = (fst (r 2), None)"
      by (simp add: prod_eq_iff)
    from attempts_ok2 [OF a b c] show ?thesis
      unfolding 3 upt_0_Suc by (simp add: rep3)
  qed
qed

lemma attempts_failure:
  fixes r :: "nat \<Rightarrow> chunk list \<times> pystr option"
  assumes r: "\<forall>i. r i = stream_reply e rq b (length (calls w) + i)"
    and f0: "snd (r 0) \<noteq> None" and f1: "snd (r 1) \<noteq> None" and f2: "snd (r 2) = Some err"
  shows "stream_attempts e rq b 3 [0 ..< 3]
           \<lparr>st_events = [], st_answer = [], st_thinking = [], st_success = False,
            st_returned = False, st_world = w\<rparr> =
         \<lparr>st_events = concat (map (\<lambda>i. map event_of (fst (r i)) @ [ErrorEvent (retry_notice (2 ^ i))]) [0 ..< 2])
                        @ map event_of (fst (r 2)) @ [ErrorEvent (final_notice 3 err)],
          st_answer = concat (map content_text (fst (r 2))),
          st_thinking = concat (map thinking_text (fst (r 2))),
          st_success = False, st_returned = True,
          st_world = w\<lparr>calls := calls w @ [rq, rq, rq], sleeps := sleeps w @ [1, 2]\<rparr>\<rparr>"
proof -
  have r0: "stream_reply e rq b (length (calls w)) = r 0" using r by simp
  have r1: "stream_reply e rq b (Suc (length (calls w))) = r 1" using r by simp
  have r2: "stream_reply e rq b (Suc (Suc (length (calls w)))) = r 2"
    using r by (simp add: numeral_2_eq_2)
  from f0 f1 obtain e0 e1 where "snd (r 0) = Some e0" "snd (r 1) = Some e1" by auto
  with r0 r1 have a: "stream_reply e rq b (length (calls w)) = (fst (r 0), Some e0)"
    and b: "stream_reply e rq b (Suc (length (calls w))) = (fst (r 1), Some e1)"
    by (simp_all add: prod_eq_iff)
  from f2 r2 have c: "stream_reply e rq b (Suc (Suc (length (calls w)))) = (fst (r 2), Some err)"
    by (simp add: prod_eq_iff)
  from attempts_fail [OF a b c] show ?thesis by (simp add: upt_0_Suc)
qed

lemma stream_run_failure:
  fixes r :: "nat \<Rightarrow> chunk list \<times> pystr option"
  assumes hist: "build_history paper parent = Some (Inr h)"
    and pl: "pl = plan_question e q config w"
    and rq: "rq = plan_request config paper pl (if parent \<noteq> None then Some h else None)"
    and r: "\<forall>i. r i = stream_reply e rq (pl_is_reasoning pl) (length (calls (pl_world pl)) + i)"
    and f0: "snd (r 0) \<noteq> None" and f1: "snd (r 1) \<noteq> None" and f2: "snd (r 2) = Some err"
  shows "ask_custom_question_stream e paper q config parent w =
              Some \<lparr>sr_events = concat (map (\<lambda>i. map event_of (fst (r i)) @ [ErrorEvent (retry_notice (2 ^ i))])
                                [0 ..< 2])
                      @ map event_of (fst (r 2)) @ [ErrorEvent (final_notice 3 err)],
                    sr_error = None,
                    sr_paper = paper,
                    sr_world = (pl_world pl)\<lparr>calls := calls (pl_world pl) @ [rq, rq, rq],
                                             sleeps := sleeps (pl_world pl) @ [1, 2]\<rparr>\<rparr>"
proof -
  note st = attempts_failure [OF r f0 f1 f2]
  show ?thesis
    unfolding ask_custom_question_stream_def Let_def pl [symmetric] hist
    by (simp only: sum.case option.case rq [symmetric] st) simp
qed

lemma stream_run_success:
  fixes r :: "nat \<Rightarrow> chunk list \<times> pystr option"
  assumes hist: "build_history paper parent = Some (Inr h)"
    and pl: "pl = plan_question e q config w"
    and rq: "rq = plan_request config paper pl (if parent \<noteq> None then Some h else None)"
    and r: "\<forall>i. r i = stream_reply e rq (pl_is_reasoning pl) (length (calls (pl_world pl)) + i)"
    and k: "k < 3" and failed: "\<forall>i<k. snd (r i) \<noteq> None" and ok: "snd (r k) = None"
  shows "ask_custom_question_stream e paper q config parent w =
           (if (concat (map content_text (fst (r k))) \<noteq> []
                 \<or> concat (map thinking_text (fst (r k))) \<noteq> [])
            then Some \<lparr>sr_events = concat (map (\<lambda>i. map event_of (fst (r i)) @ [ErrorEvent (retry_notice (2 ^ i))])
                                [0 ..< k])
                      @ map event_of (fst (r k)),
                    sr_error = None,
                    sr_paper = paper\<lparr>qa_pairs := qa_pairs paper @ [\<lparr>question = q,
                        answer = concat (map content_text (fst (r k))),
                        thinking = (if pl_is_reasoning pl
                                    then Some (concat (map thinking_text (fst (r k)))) else None),
                        is_reasoning = pl_is_reasoning pl,
                        parent_qa_id = parent\<rparr>]\<rparr>,
                    sr_world = save_paper
                      (paper\<lparr>qa_pairs := qa_pairs paper @ [\<lparr>question = q,
                        answer = concat (map content_text (fst (r k))),
                        thinking = (if pl_is_reasoning pl
                                    then Some (concat (map thinking_text (fst (r k)))) else None),
                        is_reasoning = pl_is_reasoning pl,
                        parent_qa_id = parent\<rparr>]\<rparr>)
                      ((pl_world pl)\<lparr>calls := calls (pl_world pl) @ replicate (Suc k) rq,
                                  sleeps := sleeps (pl_world pl) @ map (\<lambda>i. 2 ^ i) [0 ..< k]\<rparr>)\<rparr>
            else Some \<lparr>sr_events = concat (map (\<lambda>i. map event_of (fst (r i)) @ [ErrorEvent (retry_notice (2 ^ i))])
                                [0 ..< k])
                      @ map event_of (fst (r k)),
                    sr_error = None,
                    sr_paper = paper,
                    sr_world = (pl_world pl)\<lparr>calls := calls (pl_world pl) @ replicate (Suc k) rq,
                                  sleeps := sleeps (pl_world pl) @ map (\<lambda>i. 2 ^ i) [0 ..< k]\<rparr>\<rparr>)"
proof -
  note st = attempts_success [OF r k failed ok]
  show ?thesis
    unfolding ask_custom_question_stream_def Let_def pl [symmetric] hist
    by (simp only: sum.case option.case rq [symmetric] st) auto
qed

text \<open>
  C5, as the code has it. Let the walk along the parent links return, let \<open>rq\<close> be the
  streamed request and \<open>r i\<close> what the \<open>i\<close>-th pass over the stream yields and how it ends.
  There are at most three passes, all with the same request. A pass that fails is followed
  by an error event announcing the retry and by a wait of 1, then 2 seconds. When all three
  fail, the last event is the final error, the paper is unchanged and nothing is saved.
  When pass \<open>k\<close> is the first to end normally and its answer or its thinking is not empty,
  exactly one QAPair is appended and saved: the question as given, the answer and the
  thinking of pass \<open>k\<close> alone (the thinking only in reasoning mode), the reasoning flag and
  the parent position as given.
\<close>

theorem stream_retry_and_persist:
  fixes r :: "nat \<Rightarrow> chunk list \<times> pystr option"
  assumes hist: "build_history paper parent = Some (Inr h)"
    and pl: "pl = plan_question e q config w"
    and rq: "rq = plan_request config paper pl (if parent \<noteq> None then Some h else None)"
    and r: "\<forall>i. r i = stream_reply e rq (pl_is_reasoning pl) (length (calls (pl_world pl)) + i)"
  shows "(snd (r 0) \<noteq> None \<and> snd (r 1) \<noteq> None \<and> snd (r 2) = Some err \<longrightarrow>
            ask_custom_question_stream e paper q config parent w =
              Some \<lparr>sr_events = concat (map (\<lambda>i. map event_of (fst (r i)) @ [ErrorEvent (retry_notice (2 ^ i))])
                                [0 ..< 2])
                      @ map event_of (fst (r 2)) @ [ErrorEvent (final_notice 3 err)],
                    sr_error = None,
                    sr_paper = paper,
                    sr_world = (pl_world pl)\<lparr>calls := calls (pl_world pl) @ [rq, rq, rq],
                                             sleeps := sleeps (pl_world pl) @ [1, 2]\<rparr>\<rparr>)
       \<and> (k < 3 \<and> (\<forall>i<k. snd (r i) \<noteq> None) \<and> snd (r k) = None
            \<and> (concat (map content_text (fst (r k))) \<noteq> []
                 \<or> concat (map thinking_text (fst (r k))) \<noteq> []) \<longrightarrow>
            ask_custom_question_stream e paper q config parent w =
              Some \<lparr>sr_events = concat (map (\<lambda>i. map event_of (fst (r i)) @ [ErrorEvent (retry_notice (2 ^ i))])
                                [0 ..< k])
                      @ map event_of (fst (r k)),
                    sr_error = None,
                    sr_paper = paper\<lparr>qa_pairs := qa_pairs paper @ [\<lparr>question = q,
                        answer = concat (map content_text (fst (r k))),
                        thinking = (if pl_is_reasoning pl
                                    then Some (concat (map thinking_text (fst (r k)))) else None),
                        is_reasoning = pl_is_reasoning pl,
                        parent_qa_id = parent\<rparr>]\<rparr>,
                    sr_world = save_paper
                      (paper\<lparr>qa_pairs := qa_pairs paper @ [\<lparr>question = q,
                        answer = concat (map content_text (fst (r k))),
                        thinking = (if pl_is_reasoning pl
                                    then Some (concat (map thinking_text (fst (r k)))) else None),
                        is_reasoning = pl_is_reasoning pl,
                        parent_qa_id = parent\<rparr>]\<rparr>)
                      ((pl_world pl)\<lparr>calls := calls (pl_world pl) @ replicate (Suc k) rq,
                                  sleeps := sleeps (pl_world pl) @ map (\<lambda>i. 2 ^ i) [0 ..< k]\<rparr>)\<rparr>)"
proof (intro conjI impI)
  assume a: "snd (r 0) \<noteq> None \<and> snd (r 1) \<noteq> None \<and> snd (r 2) = Some err"
  then have f0: "snd (r 0) \<noteq> None" and f1: "snd (r 1) \<noteq> None" and f2: "snd (r 2) = Some err"
    by simp_all
  show "ask_custom_question_stream e paper q config parent w =
              Some \<lparr>sr_events = concat (map (\<lambda>i. map event_of (fst (r i)) @ [ErrorEvent (retry_notice (2 ^ i))])
                                [0 ..< 2])
                      @ map event_of (fst (r 2)) @ [ErrorEvent (final_notice 3 err)],
                    sr_error = None,
                    sr_paper = paper,
                    sr_world = (pl_world pl)\<lparr>calls := calls (pl_world pl) @ [rq, rq, rq],
                                             sleeps := sleeps (pl_world pl) @ [1, 2]\<rparr>\<rparr>"
    by (rule stream_run_failure [OF hist pl rq r f0 f1 f2])
next
  assume a: "k < 3 \<and> (\<forall>i<k. snd (r i) \<noteq> None) \<and> snd (r k) = None
            \<and> (concat (map content_text (fst (r k))) \<noteq> []
                 \<or> concat (map thinking_text (fst (r k))) \<noteq> [])"
  then have k: "k < 3" and failed: "\<forall>i<k. snd (r i) \<noteq> None" and ok: "snd (r k) = None"
    and ne: "(concat (map content_text (fst (r k))) \<noteq> []
                 \<or> concat (map thinking_text (fst (r k))) \<noteq> [])"
    by simp_all
  show "ask_custom_question_stream e paper q config parent w =
              Some \<lparr>sr_events = concat (map (\<lambda>i. map event_of (fst (r i)) @ [ErrorEvent (retry_notice (2 ^ i))])
                                [0 ..< k])
                      @ map event_of (fst (r k)),
                    sr_error = None,
                    sr_paper = paper\<lparr>qa_pairs := qa_pairs paper @ [\<lparr>question = q,
                        answer = concat (map content_text (fst (r k))),
                        thinking = (if pl_is_reasoning pl
                                    then Some (concat (map thinking_text (fst (r k)))) else None),
                        is_reasoning = pl_is_reasoning pl,
                        parent_qa_id = parent\<rparr>]\<rparr>,
                    sr_world = save_paper
                      (paper\<lparr>qa_pairs := qa_pairs paper @ [\<lparr>question = q,
                        answer = concat (map content_text (fst (r k))),
                        thinking = (if pl_is_reasoning pl
                                    then Some (concat (map thinking_text (fst (r k)))) else None),
                        is_reasoning = pl_is_reasoning pl,
                        parent_qa_id = parent\<rparr>]\<rparr>)
                      ((pl_world pl)\<lparr>calls := calls (pl_world pl) @ replicate (Suc k) rq,
                                  sleeps := sleeps (pl_world pl) @ map (\<lambda>i. 2 ^ i) [0 ..< k]\<rparr>)\<rparr>"
    unfolding stream_run_success [OF hist pl rq r k failed ok] using ne by simp
qed

text \<open>
  C9. When a pass over the stream ends normally with an empty answer and an empty
  thinking trace, no QAPair is appended and nothing is saved: the paper returned is the
  input and the store is the one left by the resolution of the references.
\<close>

theorem stream_empty_not_persisted:
  fixes r :: "nat \<Rightarrow> chunk list \<times> pystr option"
  assumes hist: "build_history paper parent = Some (Inr h)"
    and pl: "pl = plan_question e q config w"
    and rq: "rq = plan_request config paper pl (if parent \<noteq> None then Some h else None)"
    and r: "\<forall>i. r i = stream_reply e rq (pl_is_reasoning pl) (length (calls (pl_world pl)) + i)"
    and k: "k < 3" and failed: "\<forall>i<k. snd (r i) \<noteq> None" and ok: "snd (r k) = None"
    and no_answer: "concat (map content_text (fst (r k))) = []"
    and no_thinking: "concat (map thinking_text (fst (r k))) = []"
  shows "ask_custom_question_stream e paper q config parent w =
              Some \<lparr>sr_events = concat (map (\<lambda>i. map event_of (fst (r i)) @ [ErrorEvent (retry_notice (2 ^ i))])
                                [0 ..< k])
                      @ map event_of (fst (r k)),
                    sr_error = None,
                    sr_paper = paper,
                    sr_world = (pl_world pl)\<lparr>calls := calls (pl_world pl) @ replicate (Suc k) rq,
                                  sleeps := sleeps (pl_world pl) @ map (\<lambda>i. 2 ^ i) [0 ..< k]\<rparr>\<rparr>
         \<and> map_option (\<lambda>run. store (sr_world run)) (ask_custom_question_stream e paper q config parent w)
             = Some (store (pl_world pl))"
  unfolding stream_run_success [OF hist pl rq r k failed ok] using no_answer no_thinking by simp
lemma no_ids_why: "findall_ids (\<lambda>c. 48 \<le> c \<and> c \<le> 57) (ascii ''why'') = []"
  by (simp add: findall_ids_def match_id_def ascii_def)

lemma strip_why: "strip (ascii '' why'') = ascii ''why''"
  by (simp add: strip_def is_space_def whitespace_def ascii_def)

lemma think_why: "detect_reasoning (sample_env f g j) (ascii ''think: why'') = (True, ascii ''why'')"
proof -
  have "startswith (ascii_lower (ascii ''think: why'')) (ascii ''think:'')"
    by (simp add: ascii_lower_def ascii_def)
  moreover have "drop 6 (ascii ''think: why'') = ascii '' why''" by (simp add: ascii_def)
  ultimately show ?thesis by (simp add: detect_reasoning_def sample_env_def strip_why)
qed

lemma plan_why:
  "plan_question (sample_env f g j) (ascii ''think: why'') config w =
     \<lparr>pl_is_reasoning = True, pl_question = ascii ''why'', pl_referenced = [], pl_titles = [],
      pl_world = w\<rparr>"
proof -
  have "is_digit (sample_env f g j) = (\<lambda>c. 48 \<le> c \<and> c \<le> 57)" by (simp add: sample_env_def)
  then show ?thesis by (simp add: plan_question_def think_why no_ids_why)
qed

lemma history_none: "build_history paper None = Some (Inr [])"
  by (simp add: build_history_def)

lemma talk_reply:
  "stream_reply talk_env rq True 0 = ([Content (ascii ''par'')], Some (ascii ''cut''))"
  "stream_reply talk_env rq True (Suc 0) =
     ([Thinking (ascii ''hm''), Content (ascii ''yes''), Content (ascii ''!'')], None)"
  by (simp_all add: stream_reply_def talk_env_def sample_env_def cut_then_talk_def
      content_part_def thinking_part_def ascii_def)

lemma down_reply: "stream_reply down_env rq b n = ([], Some (ascii ''down''))"
  by (simp add: stream_reply_def down_env_def sample_env_def no_stream_def)

theorem stream_retry_and_persist_witness:
  "build_history sample_paper None = Some (Inr [])
   \<and> map_option sr_events (ask_custom_question_stream talk_env sample_paper (ascii ''think: why'')
        sample_config None empty_world)
       = Some [ContentEvent (ascii ''par''), ErrorEvent (retry_notice 1), ThinkingEvent (ascii ''hm''),
               ContentEvent (ascii ''yes''), ContentEvent (ascii ''!'')]
   \<and> map_option (\<lambda>run. qa_pairs (sr_paper run)) (ask_custom_question_stream talk_env sample_paper
        (ascii ''think: why'') sample_config None empty_world)
       = Some [\<lparr>question = ascii ''think: why'', answer = ascii ''yes'' @ ascii ''!'',
                 thinking = Some (ascii ''hm''), is_reasoning = True, parent_qa_id = None\<rparr>]
   \<and> map_option (\<lambda>run. sleeps (sr_world run)) (ask_custom_question_stream talk_env sample_paper
        (ascii ''think: why'') sample_config None empty_world) = Some [1]
   \<and> map_option sr_events (ask_custom_question_stream down_env sample_paper (ascii ''think: why'')
        sample_config None empty_world)
       = Some [ErrorEvent (retry_notice 1), ErrorEvent (retry_notice 2),
               ErrorEvent (final_notice 3 (ascii ''down''))]
   \<and> map_option (\<lambda>run. (sr_paper run, store (sr_world run)))
        (ask_custom_question_stream down_env sample_paper (ascii ''think: why'')
           sample_config None empty_world) = Some (sample_paper, Map.empty)"
proof -
  define pl where "pl = plan_question talk_env (ascii ''think: why'') sample_config empty_world"
  define rq where "rq = plan_request sample_config sample_paper pl (if None \<noteq> (None :: int option) then Some [] else None)"
  define r where "r = (\<lambda>i. stream_reply talk_env rq (pl_is_reasoning pl) (length (calls (pl_world pl)) + i))"
  have plv: "pl = \<lparr>pl_is_reasoning = True, pl_question = ascii ''why'', pl_referenced = [],
                   pl_titles = [], pl_world = empty_world\<rparr>"
    unfolding pl_def talk_env_def by (rule plan_why)
  have r0: "r 0 = ([Content (ascii ''par'')], Some (ascii ''cut''))"
    and r1: "r (Suc 0) = ([Thinking (ascii ''hm''), Content (ascii ''yes''), Content (ascii ''!'')], None)"
    unfolding r_def plv by (simp_all add: empty_world_def talk_reply)
  have rr: "\<forall>i. r i = stream_reply talk_env rq (pl_is_reasoning pl) (length (calls (pl_world pl)) + i)"
    by (simp add: r_def)
  have hyp: "(1::nat) < 3 \<and> (\<forall>i<1. snd (r i) \<noteq> None) \<and> snd (r 1) = None
            \<and> (concat (map content_text (fst (r 1))) \<noteq> []
                 \<or> concat (map thinking_text (fst (r 1))) \<noteq> [])"
    by (simp add: r0 r1 ascii_def)
  from stream_retry_and_persist [OF history_none pl_def rq_def rr, of _ 1] hyp
  have run: "ask_custom_question_stream talk_env sample_paper (ascii ''think: why'') sample_config None empty_world =
              Some \<lparr>sr_events =
                      concat (map (\<lambda>i. map event_of (fst (r i)) @ [ErrorEvent (retry_notice (2 ^ i))])
                                [0 ..< 1])
                      @ map event_of (fst (r 1)),
                    sr_error = None,
                    sr_paper = sample_paper\<lparr>qa_pairs := qa_pairs sample_paper @
                      [\<lparr>question = ascii ''think: why'',
                        answer = concat (map content_text (fst (r 1))),
                        thinking = (if pl_is_reasoning pl
                                    then Some (concat (map thinking_text (fst (r 1)))) else None),
                        is_reasoning = pl_is_reasoning pl,
                        parent_qa_id = None\<rparr>]\<rparr>,
                    sr_world = save_paper
                      (sample_paper\<lparr>qa_pairs := qa_pairs sample_paper @
                        [\<lparr>question = ascii ''think: why'',
                          answer = concat (map content_text (fst (r 1))),
                          thinking = (if pl_is_reasoning pl
                                      then Some (concat (map thinking_text (fst (r 1)))) else None),
                          is_reasoning = pl_is_reasoning pl,
                          parent_qa_id = None\<rparr>]\<rparr>)
                      ((pl_world pl)\<lparr>calls := calls (pl_world pl) @ replicate (Suc 1) rq,
                                      sleeps := sleeps (pl_world pl) @ map (\<lambda>i. 2 ^ i) [0 ..< 1]\<rparr>)\<rparr>"
    by blast
  have a: "map_option sr_events (ask_custom_question_stream talk_env sample_paper (ascii ''think: why'')
        sample_config None empty_world)
       = Some [ContentEvent (ascii ''par''), ErrorEvent (retry_notice 1), ThinkingEvent (ascii ''hm''),
               ContentEvent (ascii ''yes''), ContentEvent (ascii ''!'')]"
    unfolding run by (simp add: r0 r1)
  have b: "map_option (\<lambda>run. qa_pairs (sr_paper run)) (ask_custom_question_stream talk_env sample_paper
        (ascii ''think: why'') sample_config None empty_world)
       = Some [\<lparr>question = ascii ''think: why'', answer = ascii ''yes'' @ ascii ''!'',
                 thinking = Some (ascii ''hm''), is_reasoning = True, parent_qa_id = None\<rparr>]"
    unfolding run by (simp add: r1 plv sample_paper_def)
  have c: "map_option (\<lambda>run. sleeps (sr_world run)) (ask_custom_question_stream talk_env sample_paper
        (ascii ''think: why'') sample_config None empty_world) = Some [1]"
    unfolding run by (simp add: plv save_paper_def empty_world_def)
  define pl' where "pl' = plan_question down_env (ascii ''think: why'') sample_config empty_world"
  define rq' where "rq' = plan_request sample_config sample_paper pl' (if None \<noteq> (None :: int option) then Some [] else None)"
  define r' where "r' = (\<lambda>i. stream_reply down_env rq' (pl_is_reasoning pl') (length (calls (pl_world pl')) + i))"
  have plv': "pl' = \<lparr>pl_is_reasoning = True, pl_question = ascii ''why'', pl_referenced = [],
                   pl_titles = [], pl_world = empty_world\<rparr>"
    unfolding pl'_def down_env_def by (rule plan_why)
  have r'v: "r' i = ([], Some (ascii ''down''))" for i
    unfolding r'_def by (rule down_reply)
  have rr': "\<forall>i. r' i = stream_reply down_env rq' (pl_is_reasoning pl') (length (calls (pl_world pl')) + i)"
    by (simp add: r'_def)
  have hyp': "snd (r' 0) \<noteq> None \<and> snd (r' 1) \<noteq> None \<and> snd (r' 2) = Some (ascii ''down'')"
    by (simp add: r'v)
  from stream_retry_and_persist [OF history_none pl'_def rq'_def rr', of "ascii ''down''"] hyp'
  have run': "ask_custom_question_stream down_env sample_paper (ascii ''think: why'') sample_config None empty_world =
              Some \<lparr>sr_events =
                      concat (map (\<lambda>i. map event_of (fst (r' i)) @ [ErrorEvent (retry_notice (2 ^ i))])
                                [0 ..< 2])
                      @ map event_of (fst (r' 2)) @ [ErrorEvent (final_notice 3 (ascii ''down''))],
                    sr_error = None,
                    sr_paper = sample_paper,
                    sr_world = (pl_world pl')\<lparr>calls := calls (pl_world pl') @ [rq', rq', rq'],
                                             sleeps := sleeps (pl_world pl') @ [1, 2]\<rparr>\<rparr>"
    by blast
  have d: "map_option sr_events (ask_custom_question_stream down_env sample_paper (ascii ''think: why'')
        sample_config None empty_world)
       = Some [ErrorEvent (retry_notice 1), ErrorEvent (retry_notice 2),
               ErrorEvent (final_notice 3 (ascii ''down''))]"
    unfolding run' by (simp add: r'v upt_0_Suc)
  have e: "map_option (\<lambda>run. (sr_paper run, store (sr_world run)))
        (ask_custom_question_stream down_env sample_paper (ascii ''think: why'')
           sample_config None empty_world) = Some (sample_paper, Map.empty)"
    unfolding run' by (simp add: plv' empty_world_def)
  from history_none a b c d e show ?thesis by blast
qed
lemma plain_why: "detect_reasoning (sample_env f g j) (ascii ''why'') = (False, ascii ''why'')"
proof -
  have "\<not> startswith (ascii_lower (ascii ''why'')) (ascii ''think:'')"
    by (simp add: ascii_lower_def ascii_def)
  then show ?thesis by (simp add: detect_reasoning_def sample_env_def)
qed

lemma plan_plain:
  "plan_question (sample_env f g j) (ascii ''why'') config w =
     \<lparr>pl_is_reasoning = False, pl_question = ascii ''why'', pl_referenced = [], pl_titles = [],
      pl_world = w\<rparr>"
proof -
  have "is_digit (sample_env f g j) = (\<lambda>c. 48 \<le> c \<and> c \<le> 57)" by (simp add: sample_env_def)
  then show ?thesis by (simp add: plan_question_def plain_why no_ids_why)
qed


text \<open>
  A stream that ends normally does not always persist an entry: with a stream that
  delivers nothing, the run ends without error and without events, the paper has no
  QAPair and the store is empty.
\<close>

theorem stream_empty_counterexample:
  "snd (stream_reply quiet_env
          (plan_request sample_config sample_paper
             (plan_question quiet_env (ascii ''why'') sample_config empty_world) None) False 0) = None
   \<and> map_option (\<lambda>run. (sr_events run, sr_error run, qa_pairs (sr_paper run), store (sr_world run)))
       (ask_custom_question_stream quiet_env sample_paper (ascii ''why'') sample_config None empty_world)
     = Some ([], None, [], Map.empty)"
proof -
  define pl where "pl = plan_question quiet_env (ascii ''why'') sample_config empty_world"
  define rq where "rq = plan_request sample_config sample_paper pl (if None \<noteq> (None :: int option) then Some [] else None)"
  define r where "r = (\<lambda>i. stream_reply quiet_env rq (pl_is_reasoning pl) (length (calls (pl_world pl)) + i))"
  have plv: "pl = \<lparr>pl_is_reasoning = False, pl_question = ascii ''why'', pl_referenced = [],
                   pl_titles = [], pl_world = empty_world\<rparr>"
    unfolding pl_def quiet_env_def by (rule plan_plain)
  have rep: "stream_reply quiet_env x b n = ([], None)" for x b n
    by (simp add: stream_reply_def quiet_env_def sample_env_def quiet_stream_def)
  have r0: "r 0 = ([], None)" unfolding r_def by (rule rep)
  have rr: "\<forall>i. r i = stream_reply quiet_env rq (pl_is_reasoning pl) (length (calls (pl_world pl)) + i)"
    by (simp add: r_def)
  have k: "(0::nat) < 3" by simp
  have failed: "\<forall>i<0. snd (r i) \<noteq> None" by simp
  have ok: "snd (r 0) = None" by (simp add: r0)
  have "map_option (\<lambda>run. (sr_events run, sr_error run, qa_pairs (sr_paper run), store (sr_world run)))
       (ask_custom_question_stream quiet_env sample_paper (ascii ''why'') sample_config None empty_world)
     = Some ([], None, [], Map.empty)"
    unfolding stream_run_success [OF history_none pl_def rq_def rr k failed ok]
    by (simp add: r0 plv empty_world_def sample_paper_def)
  then show ?thesis by (simp add: rep)
qed
theorem stream_empty_not_persisted_witness:
  "build_history sample_paper None = Some (Inr [])
   \<and> stream_reply hollow_env
        (plan_request sample_config sample_paper
           (plan_question hollow_env (ascii ''think: why'') sample_config empty_world) None)
        True 0 = ([], None)
   \<and> map_option (\<lambda>run. (sr_events run, sr_paper run, store (sr_world run)))
       (ask_custom_question_stream hollow_env sample_paper (ascii ''think: why'') sample_config None
          empty_world)
     = Some ([], sample_paper, Map.empty)"
proof -
  define pl where "pl = plan_question hollow_env (ascii ''think: why'') sample_config empty_world"
  define rq where "rq = plan_request sample_config sample_paper pl (if None \<noteq> (None :: int option) then Some [] else None)"
  define r where "r = (\<lambda>i. stream_reply hollow_env rq (pl_is_reasoning pl) (length (calls (pl_world pl)) + i))"
  have plv: "pl = \<lparr>pl_is_reasoning = True, pl_question = ascii ''why'', pl_referenced = [],
                   pl_titles = [], pl_world = empty_world\<rparr>"
    unfolding pl_def hollow_env_def by (rule plan_why)
  have rep: "stream_reply hollow_env x True n = ([], None)" for x n
    by (simp add: stream_reply_def hollow_env_def sample_env_def hollow_stream_def
        content_part_def thinking_part_def)
  have r0: "r 0 = ([], None)" unfolding r_def plv by (simp add: rep)
  have rr: "\<forall>i. r i = stream_reply hollow_env rq (pl_is_reasoning pl) (length (calls (pl_world pl)) + i)"
    by (simp add: r_def)
  have k: "(0::nat) < 3" by simp
  have failed: "\<forall>i<0. snd (r i) \<noteq> None" by simp
  have ok: "snd (r 0) = None" by (simp add: r0)
  have na: "concat (map content_text (fst (r 0))) = []" by (simp add: r0)
  have nt: "concat (map thinking_text (fst (r 0))) = []" by (simp add: r0)
  from stream_empty_not_persisted [OF history_none pl_def rq_def rr k failed ok na nt]
  have "map_option (\<lambda>run. (sr_events run, sr_paper run, store (sr_world run)))
       (ask_custom_question_stream hollow_env sample_paper (ascii ''think: why'') sample_config None
          empty_world)
     = Some ([], sample_paper, Map.empty)"
    by (simp add: r0 plv empty_world_def)
  with history_none rep show ?thesis by blast
qed

section \<open>Reasoning mode in the two variants\<close>

text \<open>
  C6, as the code has it. For a question whose lower-cased form starts with \<open>think:\<close>, the
  streaming variant turns reasoning mode on, goes on with \<open>question[6:].strip()\<close> (for the
  references, the context and the final question) and sends its request to
  \<open>deepseek-reasoner\<close>. The synchronous variant has no such step: it resolves the
  references of the question as given, sends one request built from that question to the
  configured model, and stores the question as given with the reasoning flag off.
\<close>

theorem reasoning_prefix_stream_only:
  assumes think: "startswith (lower e q) (ascii ''think:'')"
    and refs: "resolve_references e config (findall_ids (is_digit e) (strip (drop 6 q))) [] [] w
                 = (referenced, titles, w1)"
    and refs': "resolve_references e config (findall_ids (is_digit e) q) [] [] w
                 = (referenced', titles', w1')"
  shows "plan_question e q config w =
           \<lparr>pl_is_reasoning = True, pl_question = strip (drop 6 q), pl_referenced = referenced,
            pl_titles = titles, pl_world = w1\<rparr>
       \<and> plan_request config paper (plan_question e q config w) hist =
           stream_request config (ascii ''deepseek-reasoner'')
             (stream_messages config
                (fst (build_context paper referenced titles (strip (drop 6 q))))
                (snd (build_context paper referenced titles (strip (drop 6 q)))) hist)
       \<and> rq_model (plan_request config paper (plan_question e q config w) hist)
           = ascii ''deepseek-reasoner''
       \<and> calls (snd (snd (ask_custom_question e paper q config w))) =
           calls w1' @ [ask_request config (fst (build_context paper referenced' titles' q))
                                          (snd (build_context paper referenced' titles' q))]
       \<and> rq_model (ask_request config (fst (build_context paper referenced' titles' q))
                                      (snd (build_context paper referenced' titles' q)))
           = model config
       \<and> (fst (ask_custom_question e paper q config w) = Returns a \<longrightarrow>
            fst (snd (ask_custom_question e paper q config w)) =
              paper\<lparr>qa_pairs := qa_pairs paper @
                [\<lparr>question = q, answer = a, thinking = None, is_reasoning = False,
                  parent_qa_id = None\<rparr>]\<rparr>)"
proof -
  have p: "plan_question e q config w =
           \<lparr>pl_is_reasoning = True, pl_question = strip (drop 6 q), pl_referenced = referenced,
            pl_titles = titles, pl_world = w1\<rparr>"
    using think refs by (simp add: plan_question_def detect_reasoning_def)
  have rq: "plan_request config paper (plan_question e q config w) hist =
           stream_request config (ascii ''deepseek-reasoner'')
             (stream_messages config
                (fst (build_context paper referenced titles (strip (drop 6 q))))
                (snd (build_context paper referenced titles (strip (drop 6 q)))) hist)"
    unfolding p by (simp add: plan_request_def split: prod.splits)
  have m: "rq_model (plan_request config paper (plan_question e q config w) hist)
           = ascii ''deepseek-reasoner''"
    unfolding rq by (simp add: stream_request_def str_or_def ascii_def)
  obtain cp fq where ctx: "build_context paper referenced' titles' q = (cp, fq)"
    by (cases "build_context paper referenced' titles' q") auto
  obtain res w2 where aq: "ask_question e cp fq config w1' = (res, w2)"
    by (cases "ask_question e cp fq config w1'") auto
  have w2: "calls w2 = calls w1' @ [ask_request config cp fq]"
    using aq by (auto simp: ask_question_def Let_def)
  have c: "calls (snd (snd (ask_custom_question e paper q config w))) =
           calls w1' @ [ask_request config (fst (build_context paper referenced' titles' q))
                                          (snd (build_context paper referenced' titles' q))]"
    using refs' ctx aq w2
    by (cases res) (simp_all add: ask_custom_question_def Let_def save_paper_def)
  have sm: "rq_model (ask_request config (fst (build_context paper referenced' titles' q))
                                      (snd (build_context paper referenced' titles' q)))
           = model config"
    by (simp add: ask_request_def)
  have s: "fst (ask_custom_question e paper q config w) = Returns a \<longrightarrow>
            fst (snd (ask_custom_question e paper q config w)) =
              paper\<lparr>qa_pairs := qa_pairs paper @
                [\<lparr>question = q, answer = a, thinking = None, is_reasoning = False,
                  parent_qa_id = None\<rparr>]\<rparr>"
    using refs' ctx aq
    by (cases res) (simp_all add: ask_custom_question_def Let_def QAPair_default_def)
  from p rq m c sm s show ?thesis by blast
qed

lemma no_ids_think: "findall_ids (\<lambda>c. 48 \<le> c \<and> c \<le> 57) (ascii ''think: why'') = []"
  by (simp add: findall_ids_def match_id_def ascii_def)

lemma dying_digits: "is_digit dying_env = (\<lambda>c. 48 \<le> c \<and> c \<le> 57)"
  by (simp add: dying_env_def sample_env_def)

lemma sync_think_calls:
  "calls (snd (snd (ask_custom_question dying_env sample_paper (ascii ''think: why'') sample_config
                      empty_world)))
     = [ask_request sample_config (cache_prefix_of sample_paper) (ascii ''think: why'')]"
  by (simp add: ask_custom_question_def dying_digits no_ids_think build_context_def
      ask_question_def Let_def empty_world_def dying_env_def sample_env_def dies_at_def
      save_paper_def)

theorem reasoning_prefix_stream_only_witness:
  "startswith (lower dying_env (ascii ''think: why'')) (ascii ''think:'')
   \<and> resolve_references dying_env sample_config
        (findall_ids (is_digit dying_env) (strip (drop 6 (ascii ''think: why'')))) [] [] empty_world
       = ([], [], empty_world)
   \<and> resolve_references dying_env sample_config
        (findall_ids (is_digit dying_env) (ascii ''think: why'')) [] [] empty_world
       = ([], [], empty_world)
   \<and> pl_question (plan_question dying_env (ascii ''think: why'') sample_config empty_world) = ascii ''why''
   \<and> rq_model (plan_request sample_config sample_paper
        (plan_question dying_env (ascii ''think: why'') sample_config empty_world) None)
       = ascii ''deepseek-reasoner''
   \<and> calls (snd (snd (ask_custom_question dying_env sample_paper (ascii ''think: why'') sample_config
                        empty_world)))
       = [ask_request sample_config (cache_prefix_of sample_paper) (ascii ''think: why'')]"
proof -
  have st: "strip (drop 6 (ascii ''think: why'')) = ascii ''why''"
  proof -
    have "drop 6 (ascii ''think: why'') = ascii '' why''" by (simp add: ascii_def)
    then show ?thesis by (simp add: strip_why)
  qed
  have t: "startswith (lower dying_env (ascii ''think: why'')) (ascii ''think:'')"
    by (simp add: dying_env_def sample_env_def ascii_lower_def ascii_def)
  have r1: "resolve_references dying_env sample_config
        (findall_ids (is_digit dying_env) (strip (drop 6 (ascii ''think: why'')))) [] [] empty_world
       = ([], [], empty_world)"
    by (simp add: st dying_digits no_ids_why)
  have r2: "resolve_references dying_env sample_config
        (findall_ids (is_digit dying_env) (ascii ''think: why'')) [] [] empty_world
       = ([], [], empty_world)"
    by (simp add: dying_digits no_ids_think)
  from reasoning_prefix_stream_only [OF t r1 r2, of sample_paper None]
  have "plan_question dying_env (ascii ''think: why'') sample_config empty_world =
           \<lparr>pl_is_reasoning = True, pl_question = strip (drop 6 (ascii ''think: why'')),
            pl_referenced = [], pl_titles = [], pl_world = empty_world\<rparr>"
    and "rq_model (plan_request sample_config sample_paper
        (plan_question dying_env (ascii ''think: why'') sample_config empty_world) None)
       = ascii ''deepseek-reasoner''"
    and "calls (snd (snd (ask_custom_question dying_env sample_paper (ascii ''think: why'')
                            sample_config empty_world))) =
           calls empty_world @ [ask_request sample_config
              (fst (build_context sample_paper [] [] (ascii ''think: why'')))
              (snd (build_context sample_paper [] [] (ascii ''think: why'')))]"
    by blast+
  with t r1 r2 st show ?thesis by (simp add: build_context_def empty_world_def)
qed

text \<open>
  For the question \<open>think: why\<close> the synchronous variant sends its request to the configured
  model \<open>deepseek-chat\<close>, and the question in the request still carries the marker.
\<close>

theorem sync_keeps_prefix_counterexample:
  "startswith (lower dying_env (ascii ''think: why'')) (ascii ''think:'')
   \<and> map rq_model (calls (snd (snd (ask_custom_question dying_env sample_paper (ascii ''think: why'')
                                       sample_config empty_world))))
       = [ascii ''deepseek-chat'']
   \<and> ascii ''deepseek-chat'' \<noteq> ascii ''deepseek-reasoner''
   \<and> map rq_messages (calls (snd (snd (ask_custom_question dying_env sample_paper
                                          (ascii ''think: why'') sample_config empty_world))))
       = [[(System, ascii ''sys''),
           (User, cache_prefix_of sample_paper @ question_sep @ ascii ''think: why'')]]
   \<and> ascii ''think: why'' \<noteq> strip (drop 6 (ascii ''think: why''))"
proof -
  have t: "startswith (lower dying_env (ascii ''think: why'')) (ascii ''think:'')"
    by (simp add: dying_env_def sample_env_def ascii_lower_def ascii_def)
  have m: "ascii ''deepseek-chat'' \<noteq> ascii ''deepseek-reasoner''" by (simp add: ascii_def)
  have s: "ascii ''think: why'' \<noteq> strip (drop 6 (ascii ''think: why''))"
    by (simp add: strip_def is_space_def whitespace_def ascii_def)
  from t m s show ?thesis
    unfolding sync_think_calls by (simp add: ask_request_def sample_config_def)
qed

section \<open>Conversation threads\<close>

lemma walk_self_loop:
  assumes loop: "parent_qa_id qa = Some 0"
  shows "walk_parents [qa] (Some 0) hist = None"
proof -
  have never: "\<not> (qas = [qa] \<and> cur = Some 0)"
    if ret: "walk_parents qas cur h = Some y" for qas cur h y
  proof (rule walk_parents.raw_induct
           [where P = "\<lambda>qas cur h y. \<not> (qas = [qa] \<and> cur = Some 0)", OF _ ret])
    fix walk :: "QAPair list \<Rightarrow> int option \<Rightarrow> (pystr \<times> pystr) list
                   \<Rightarrow> (py_error + (pystr \<times> pystr) list) option"
      and qas cur h y
    assume IH: "\<And>a b c y. walk a b c = Some y \<Longrightarrow> \<not> (a = [qa] \<and> b = Some 0)"
      and eq: "(case cur of
                  None \<Rightarrow> Some (Inr h)
                | Some i \<Rightarrow>
                    (case py_index qas i of
                       None \<Rightarrow> Some (Inl IndexError)
                     | Some qa' \<Rightarrow> walk qas (parent_qa_id qa') ((question qa', answer qa') # h)))
               = Some y"
    show "\<not> (qas = [qa] \<and> cur = Some 0)"
    proof
      assume a: "qas = [qa] \<and> cur = Some 0"
      with eq loop have "walk [qa] (Some 0) ((question qa, answer qa) # h) = Some y"
        by (simp add: py_index_def)
      from IH [OF this] show False by simp
    qed
  qed
  show ?thesis
  proof (cases "walk_parents [qa] (Some 0) hist")
    case None
    then show ?thesis .
  next
    case (Some y)
    from never [OF this] show ?thesis by simp
  qed
qed

lemma self_loop_never_returns:
  assumes "qa_pairs paper = [qa]" and "parent_qa_id qa = Some 0"
  shows "ask_custom_question_stream e paper q config (Some 0) w = None"
  using assms by (simp add: ask_custom_question_stream_def build_history_def walk_self_loop Let_def)

lemma chatty_first_call:
  "ask_custom_question_stream chatty_env sample_paper (ascii ''why'') sample_config (Some 0) empty_world
     = Some \<lparr>sr_events = [ContentEvent (ascii ''yes'')], sr_error = None, sr_paper = looped_paper,
             sr_world = save_paper looped_paper
               (empty_world\<lparr>calls := [plan_request sample_config sample_paper
                  \<lparr>pl_is_reasoning = False, pl_question = ascii ''why'', pl_referenced = [],
                   pl_titles = [], pl_world = empty_world\<rparr> (Some [])]\<rparr>)\<rparr>"
proof -
  define pl where "pl = plan_question chatty_env (ascii ''why'') sample_config empty_world"
  define rq where "rq = plan_request sample_config sample_paper pl (if Some (0::int) \<noteq> None then Some [] else None)"
  define r where "r = (\<lambda>i. stream_reply chatty_env rq (pl_is_reasoning pl) (length (calls (pl_world pl)) + i))"
  have plv: "pl = \<lparr>pl_is_reasoning = False, pl_question = ascii ''why'', pl_referenced = [],
                   pl_titles = [], pl_world = empty_world\<rparr>"
    unfolding pl_def chatty_env_def by (rule plan_plain)
  have rep: "stream_reply chatty_env x False n = ([Content (ascii ''yes'')], None)" for x n
    by (simp add: stream_reply_def chatty_env_def sample_env_def chatty_stream_def
        content_part_def ascii_def)
  have r0: "r 0 = ([Content (ascii ''yes'')], None)" unfolding r_def plv by (simp add: rep)
  have rr: "\<forall>i. r i = stream_reply chatty_env rq (pl_is_reasoning pl) (length (calls (pl_world pl)) + i)"
    by (simp add: r_def)
  have h: "build_history sample_paper (Some 0) = Some (Inr [])"
    by (simp add: build_history_def sample_paper_def)
  have k: "(0::nat) < 3" by simp
  have failed: "\<forall>i<0. snd (r i) \<noteq> None" by simp
  have ok: "snd (r 0) = None" by (simp add: r0)
  show ?thesis
    unfolding stream_run_success [OF h pl_def rq_def rr k failed ok]
    by (simp add: r0 plv rq_def empty_world_def looped_paper_def sample_paper_def ascii_def)
qed

text \<open>
  C8. The walk along the parent links does not end on every record. A streamed question
  with parent position 0 on a paper without entries skips the walk (0 is out of range)
  but stores the new entry, at position 0, with parent 0. The next streamed question
  with parent position 0 on that paper walks from entry 0 to entry 0 for ever:
  the run has no result.
\<close>

theorem parent_self_loop_diverges:
  "map_option sr_paper
     (ask_custom_question_stream chatty_env sample_paper (ascii ''why'') sample_config (Some 0)
        empty_world) = Some looped_paper
   \<and> map parent_qa_id (qa_pairs looped_paper) = [Some 0]
   \<and> map_option (\<lambda>run. ask_custom_question_stream chatty_env (sr_paper run) (ascii ''why'')
                          sample_config (Some 0) (sr_world run))
       (ask_custom_question_stream chatty_env sample_paper (ascii ''why'') sample_config (Some 0)
          empty_world) = Some None"
proof -
  have "ask_custom_question_stream chatty_env looped_paper q config (Some 0) w = None" for q config w
    by (rule self_loop_never_returns [where qa = "\<lparr>question = ascii ''why'', answer = ascii ''yes'',
           thinking = None, is_reasoning = False, parent_qa_id = Some 0\<rparr>"])
       (simp_all add: looped_paper_def)
  then show ?thesis
    unfolding chatty_first_call by (simp add: looped_paper_def)
qed

theorem parent_self_loop_diverges_witness:
  "stream_reply chatty_env
     (plan_request sample_config sample_paper
        (plan_question chatty_env (ascii ''why'') sample_config empty_world) (Some []))
     False 0 = ([Content (ascii ''yes'')], None)
   \<and> build_history sample_paper (Some 0) = Some (Inr [])
   \<and> build_history looped_paper (Some 0) = None
   \<and> ask_custom_question_stream chatty_env looped_paper (ascii ''why'') sample_config (Some 0)
        (save_paper looped_paper
           (empty_world\<lparr>calls := [plan_request sample_config sample_paper
              \<lparr>pl_is_reasoning = False, pl_question = ascii ''why'', pl_referenced = [],
               pl_titles = [], pl_world = empty_world\<rparr> (Some [])]\<rparr>)) = None"
proof -
  have rep: "stream_reply chatty_env x False n = ([Content (ascii ''yes'')], None)" for x n
    by (simp add: stream_reply_def chatty_env_def sample_env_def chatty_stream_def
        content_part_def ascii_def)
  have h1: "build_history sample_paper (Some 0) = Some (Inr [])"
    by (simp add: build_history_def sample_paper_def)
  have h2: "build_history looped_paper (Some 0) = None"
    by (simp add: build_history_def looped_paper_def walk_self_loop)
  from parent_self_loop_diverges
  have "ask_custom_question_stream chatty_env looped_paper (ascii ''why'') sample_config (Some 0)
        (save_paper looped_paper
           (empty_world\<lparr>calls := [plan_request sample_config sample_paper
              \<lparr>pl_is_reasoning = False, pl_question = ascii ''why'', pl_referenced = [],
               pl_titles = [], pl_world = empty_world\<rparr> (Some [])]\<rparr>)) = None"
    unfolding chatty_first_call by simp
  with rep h1 h2 show ?thesis by blast
qed

text \<open>
  When every parent position points to an earlier entry, the walk from any entry ends, and
  the turns it collects are put in front of the history, the entry's own turn last.
\<close>

lemma walk_backward_links:
  assumes links: "\<forall>j < length qas. \<forall>p. parent_qa_id (qas ! j) = Some p \<longrightarrow> 0 \<le> p \<and> p < int j"
    and i: "i < length qas"
  shows "\<exists>chain. walk_parents qas (Some (int i)) hist = Some (Inr (chain @ hist))
                \<and> chain \<noteq> [] \<and> last chain = (question (qas ! i), answer (qas ! i))"
  using i
proof (induction i arbitrary: hist rule: less_induct)
  case (less i)
  have idx: "py_index qas (int i) = Some (qas ! i)"
    using less.prems by (simp add: py_index_def Let_def)
  let ?turn = "(question (qas ! i), answer (qas ! i))"
  show ?case
  proof (cases "parent_qa_id (qas ! i)")
    case None
    with idx have "walk_parents qas (Some (int i)) hist = Some (Inr ([?turn] @ hist))"
      by (subst walk_parents.simps) (simp add: walk_parents.simps [of qas None])
    then show ?thesis by (intro exI [of _ "[?turn]"]) simp
  next
    case (Some p)
    with links less.prems have p: "0 \<le> p" "p < int i" by auto
    then have np: "nat p < i" "int (nat p) = p" by simp_all
    from np(1) less.prems have "nat p < length qas" by simp
    from less.IH [OF np(1) this, of "?turn # hist"] np(2)
    obtain chain where c: "walk_parents qas (Some p) (?turn # hist) = Some (Inr (chain @ ?turn # hist))"
      by auto
    from idx Some c have "walk_parents qas (Some (int i)) hist = Some (Inr ((chain @ [?turn]) @ hist))"
      by (subst walk_parents.simps) simp
    then show ?thesis by (intro exI [of _ "chain @ [?turn]"]) simp
  qed
qed

end
